theory Spec2Isabelle
  imports Complex_Main "HOL-Library.Word" "HOL-Library.Sublist"
begin

section \<open>The ledger registry: contract DocumentVerification\<close>

text \<open>
  The Solidity contract keeps one mapping from certificate numbers to \<open>Document\<close>
  structs. A Solidity mapping is total: a key never written reads as the zero struct
  (empty strings, timestamp 0, \<open>exists = false\<close>). Timestamps are \<open>uint256\<close>.
\<close>

type_synonym uint256 = "256 word"

record Document =
  certificateNumber :: string
  documentHash :: string
  timestamp :: uint256
  exists :: bool

definition zero_Document :: Document where
  "zero_Document =
     \<lparr>certificateNumber = [], documentHash = [], timestamp = 0, exists = False\<rparr>"

text \<open>The event \<open>DocumentRegistered(certificateNumber, documentHash, timestamp)\<close>.\<close>

datatype event = DocumentRegistered string string uint256

fun event_certificate :: "event \<Rightarrow> string" where
  "event_certificate (DocumentRegistered cn dh ts) = cn"

text \<open>
  The state of the deployed contract: its storage (\<open>documents\<close>) and the log of the
  events it has emitted, oldest first.
\<close>

record contract =
  documents :: "string \<Rightarrow> Document"
  emitted :: "event list"

definition deployed :: contract where
  "deployed = \<lparr>documents = (\<lambda>k. zero_Document), emitted = []\<rparr>"

text \<open>A failed \<open>require\<close> reverts the transaction with its reason string.\<close>

datatype tx_error = Revert string

definition AlreadyExists :: tx_error where
  "AlreadyExists = Revert ''Certificate number already exists''"

text \<open>
  \<open>registerDocument\<close>, lines 20 to 34. The first argument is \<open>block.timestamp\<close> of the
  block that carries the transaction. A revert leaves the state as it was, so the error
  branch returns no state.
\<close>

definition registerDocument ::
  "uint256 \<Rightarrow> string \<Rightarrow> string \<Rightarrow> contract \<Rightarrow> tx_error + contract" where
  "registerDocument block_timestamp cn dh s =
     (if exists (documents s cn) then Inl (Revert ''Certificate number already exists'')
      else Inr (s\<lparr>documents := (documents s)
                      (cn := \<lparr>certificateNumber = cn, documentHash = dh,
                              timestamp = block_timestamp, exists = True\<rparr>),
                  emitted := emitted s @ [DocumentRegistered cn dh block_timestamp]\<rparr>))"

text \<open>
  \<open>verifyDocument\<close>, lines 36 to 50. The two fingerprints are compared through
  \<open>keccak256(abi.encodePacked(.))\<close>; \<open>abi.encodePacked\<close> of one string is its bytes, and
  the digest function \<open>keccak256\<close>, a built-in of the chain, is a parameter here.
\<close>

definition verifyDocument ::
  "(string \<Rightarrow> uint256) \<Rightarrow> contract \<Rightarrow> string \<Rightarrow> string \<Rightarrow> bool \<times> uint256" where
  "verifyDocument keccak256 s cn dh =
     (let doc = documents s cn in
      if \<not> exists doc then (False, 0)
      else (let isValid = (keccak256 (documentHash doc) = keccak256 dh)
            in (isValid, timestamp doc)))"

text \<open>\<open>getDocument\<close>, lines 52 to 59.\<close>

definition getDocument :: "contract \<Rightarrow> string \<Rightarrow> string \<times> string \<times> uint256 \<times> bool" where
  "getDocument s cn =
     (let doc = documents s cn
      in (certificateNumber doc, documentHash doc, timestamp doc, exists doc))"

text \<open>
  The calls the contract offers. A call arrives in a block, whose timestamp comes with
  it. \<open>exec\<close> gives the state after one call: a successful registration writes, a
  reverted one and the two views leave the state alone.
\<close>

datatype call = Register string string | Verify string string | GetDocument string

fun exec :: "contract \<Rightarrow> uint256 \<times> call \<Rightarrow> contract" where
  "exec s (t, Register cn dh) =
     (case registerDocument t cn dh s of Inl e \<Rightarrow> s | Inr s' \<Rightarrow> s')"
| "exec s (t, Verify cn dh) = s"
| "exec s (t, GetDocument cn) = s"

text \<open>The reachable states are those some list of calls produces from deployment.\<close>

definition run :: "(uint256 \<times> call) list \<Rightarrow> contract" where
  "run txs = foldl exec deployed txs"

text \<open>
  What holds of the record under key \<open>k\<close>: when it exists its \<open>certificateNumber\<close> is
  \<open>k\<close> and the log holds exactly one registration of \<open>k\<close>, carrying the stored
  fingerprint and timestamp; when it does not exist, the log holds none.
\<close>

definition record_inv :: "contract \<Rightarrow> string \<Rightarrow> bool" where
  "record_inv s k =
     (let d = documents s k; regs = filter (\<lambda>e. event_certificate e = k) (emitted s)
      in if exists d
         then certificateNumber d = k \<and>
              regs = [DocumentRegistered k (documentHash d) (timestamp d)]
         else regs = [])"

section \<open>The certificate identifier generator\<close>

text \<open>
  \<open>generateCertificateNumber\<close> reads the clock (\<open>Date.now()\<close>, milliseconds since
  1970 as an integer) and draws a random number (\<open>Math.random()\<close>, a double at least 0
  and less than 1); both are arguments of the model. \<open>Number.prototype.toString\<close> of an
  integer is its decimal expansion (time values stay below \<open>8.64e15\<close>, so there is no
  exponent), \<open>slice(-8)\<close> keeps the last eight characters or all of them when there are
  fewer, \<open>padStart(4, '0')\<close> fills up to four characters from the left.
\<close>

definition digit_char :: "nat \<Rightarrow> char" where
  "digit_char d = ''0123456789'' ! d"

fun decimal :: "nat \<Rightarrow> string" where
  "decimal n = (if n < 10 then [digit_char n] else decimal (n div 10) @ [digit_char (n mod 10)])"

declare decimal.simps [simp del]

definition Number_toString :: "int \<Rightarrow> string" where
  "Number_toString n = (if n < 0 then CHR ''-'' # decimal (nat (- n)) else decimal (nat n))"

definition slice_from_end :: "nat \<Rightarrow> string \<Rightarrow> string" where
  "slice_from_end k s = drop (length s - k) s"

definition padStart :: "nat \<Rightarrow> char \<Rightarrow> string \<Rightarrow> string" where
  "padStart k c s = replicate (k - length s) c @ s"

subsection \<open>The random draw and its product, in double precision\<close>

text \<open>
  A double that is at least 0 and less than 1 is \<open>significand / 2 ^ binary_places\<close> with
  a significand below \<open>2^53\<close> and at most 1074 binary places (the normal numbers below 1
  have 53 to 1074 places, the subnormal ones 1074), and every such quotient below 1 is a
  double.
\<close>

definition precision :: nat where
  "precision = 53"

record unit_double =
  significand :: nat
  binary_places :: nat

definition is_unit_double :: "unit_double \<Rightarrow> bool" where
  "is_unit_double d =
     (significand d < 2 ^ precision \<and> binary_places d \<le> 1074
      \<and> significand d < 2 ^ binary_places d)"

definition double_value :: "unit_double \<Rightarrow> real" where
  "double_value d = real (significand d) / 2 ^ binary_places d"

text \<open>
  \<open>Math.random() * c\<close> for an integer constant \<open>c\<close> below \<open>2^53\<close> (a double itself)
  is the exact product rounded to the nearest double, ties to the even significand. The
  exact product is \<open>significand * c / 2 ^ binary_places\<close>; rounding it to 53 significant
  bits is rounding the integer \<open>significand * c\<close> to 53 significant bits. An integer
  of more than 53 bits lies in the normal range here (at most 1074 binary places), and a
  smaller one is exact, so no other rounding occurs. \<open>round_half_even s n\<close> rounds \<open>n\<close>
  to a multiple of \<open>2 ^ s\<close>.
\<close>

fun bit_length :: "nat \<Rightarrow> nat" where
  "bit_length n = (if n = 0 then 0 else Suc (bit_length (n div 2)))"

declare bit_length.simps [simp del]

definition round_half_even :: "nat \<Rightarrow> nat \<Rightarrow> nat" where
  "round_half_even s n =
     (if 2 ^ (s - 1) < n mod 2 ^ s \<or> (n mod 2 ^ s = 2 ^ (s - 1) \<and> odd (n div 2 ^ s))
      then n div 2 ^ s + 1 else n div 2 ^ s) * 2 ^ s"

definition round_to_53_bits :: "nat \<Rightarrow> nat" where
  "round_to_53_bits n =
     (if bit_length n \<le> precision then n
      else round_half_even (bit_length n - precision) n)"

definition times_double :: "unit_double \<Rightarrow> nat \<Rightarrow> real" where
  "times_double d c = real (round_to_53_bits (significand d * c)) / 2 ^ binary_places d"

definition Math_floor :: "real \<Rightarrow> int" where
  "Math_floor x = \<lfloor>x\<rfloor>"

subsection \<open>\<open>generateCertificateNumber\<close> (\<open>part_003\<close> lines 55 to 60, \<open>part_002\<close> lines 71 to 76)\<close>

definition generateCertificateNumber :: "int \<Rightarrow> unit_double \<Rightarrow> string" where
  "generateCertificateNumber now r =
     (let prefix = ''CERT'';
          timestamp = slice_from_end 8 (Number_toString now);
          random = padStart 4 (CHR ''0'') (Number_toString (Math_floor (times_double r 10000)))
      in prefix @ ''-'' @ timestamp @ ''-'' @ random)"

text \<open>The pattern \<open>CERT-\d{8}-\d{4}\<close>, matched against the whole string.\<close>

definition is_digit :: "char \<Rightarrow> bool" where
  "is_digit c = (c \<in> set ''0123456789'')"

definition matches_CERT_pattern :: "string \<Rightarrow> bool" where
  "matches_CERT_pattern s =
     (length s = 18 \<and> take 5 s = ''CERT-'' \<and> list_all is_digit (take 8 (drop 5 s))
      \<and> take 1 (drop 13 s) = ''-'' \<and> list_all is_digit (drop 14 s))"

text \<open>The number that a string of decimal digits denotes, leading zeros included.\<close>

definition digit_value :: "char \<Rightarrow> nat" where
  "digit_value c = of_char c - 48"

definition decimal_value :: "string \<Rightarrow> nat" where
  "decimal_value s = foldl (\<lambda>a c. 10 * a + digit_value c) 0 s"

section \<open>The document stamper and the extraction of the embedded payload\<close>

text \<open>
  JavaScript strings are modelled by their UTF-8 bytes, one \<open>char\<close> per byte, and so
  are file contents: \<open>readFileSync(path, 'utf8')\<close> followed by
  \<open>writeFileSync(path, text, 'utf8')\<close> gives back the bytes of a file that is
  well-formed UTF-8, and those are the files the model covers (ill-formed bytes would
  come back as U+FFFD). The patterns the code searches for are ASCII, so a search over
  the bytes finds what a search over the UTF-16 code units finds.
\<close>

definition newline :: string where
  "newline = [CHR 0x0A]"

definition box_double :: string where
  \<comment> \<open>U+2550, BOX DRAWINGS DOUBLE HORIZONTAL\<close>
  "box_double = [CHR 0xE2, CHR 0x95, CHR 0x90]"


definition String_repeat :: "string \<Rightarrow> nat \<Rightarrow> string" where
  "String_repeat s n = concat (replicate n s)"

definition PORT :: int where
  "PORT = 3000"

subsection \<open>\<open>JSON.stringify\<close> of the pair of certificate number and fingerprint\<close>

text \<open>
  \<open>JSON.stringify\<close> of an object with two string members: no white space, the members
  in insertion order, each string quoted. Quoting escapes the double quote, the backslash
  and the control characters below U+0020 (the short forms for backspace, tab, line feed,
  form feed and carriage return, \<open>\u00XX\<close> in lower-case hexadecimal for the others);
  every other byte of well-formed text stands for itself.
\<close>

definition hex_digit :: "nat \<Rightarrow> char" where
  "hex_digit d = ''0123456789abcdef'' ! d"

definition json_escape :: "char \<Rightarrow> string" where
  "json_escape c =
     (if c = CHR 0x22 then [CHR 0x5C, CHR 0x22]
      else if c = CHR 0x5C then [CHR 0x5C, CHR 0x5C]
      else if c = CHR 0x08 then [CHR 0x5C, CHR ''b'']
      else if c = CHR 0x09 then [CHR 0x5C, CHR ''t'']
      else if c = CHR 0x0A then [CHR 0x5C, CHR ''n'']
      else if c = CHR 0x0C then [CHR 0x5C, CHR ''f'']
      else if c = CHR 0x0D then [CHR 0x5C, CHR ''r'']
      else if (of_char c :: nat) < 0x20
        then [CHR 0x5C, CHR ''u'', CHR ''0'', CHR ''0'',
              hex_digit (of_char c div 16), hex_digit (of_char c mod 16)]
      else [c])"

definition json_quote :: "string \<Rightarrow> string" where
  "json_quote s = [CHR 0x22] @ concat (map json_escape s) @ [CHR 0x22]"

definition JSON_stringify_cert_hash :: "string \<Rightarrow> string \<Rightarrow> string" where
  "JSON_stringify_cert_hash cert hash =
     ''{'' @ json_quote ''cert'' @ '':'' @ json_quote cert @ '','' @
     json_quote ''hash'' @ '':'' @ json_quote hash @ ''}''"

subsection \<open>Plain text: \<open>createCertifiedTextFile\<close>\<close>

text \<open>
  The template literal of the QR variant (\<open>part_003\<close>, lines 354 to 366), line by line.
  \<open>certified\<close> stands for the source's \<open>timestamp\<close>, the string
  \<open>new Date().toLocaleString()\<close>, an argument of the model; \<open>certNumber\<close> and \<open>docHash\<close>
  stand for \<open>certificateNumber\<close> and \<open>documentHash\<close>.
\<close>

definition certifiedContent_qr :: "string \<Rightarrow> string \<Rightarrow> string \<Rightarrow> string \<Rightarrow> string" where
  "certifiedContent_qr originalContent certified certNumber docHash =
     (let qrData = JSON_stringify_cert_hash certNumber docHash in
      originalContent @ newline @
      newline @
      String_repeat box_double 80 @ newline @
      ''BLOCKCHAIN VERIFIED CERTIFICATE'' @ newline @
      ''Certificate Number: '' @ certNumber @ newline @
      ''Document Hash: '' @ docHash @ newline @
      ''Certified: '' @ certified @ newline @
      newline @
      ''QR Data (for verification): '' @ qrData @ newline @
      newline @
      ''Upload this file to verify at: http://localhost:'' @ Number_toString PORT @ newline @
      String_repeat box_double 80 @ newline)"


text \<open>
  The file system: the files that exist, by path, with their bytes.
  \<open>createCertifiedTextFile\<close> reads the input file and writes the output file; when the
  read throws (no such file) the \<open>catch\<close> returns \<open>false\<close> and nothing is written.
\<close>

type_synonym filesystem = "string \<rightharpoonup> string"

definition createCertifiedTextFile_qr ::
  "filesystem \<Rightarrow> string \<Rightarrow> string \<Rightarrow> string \<Rightarrow> string \<Rightarrow> string \<Rightarrow> bool \<times> filesystem" where
  "createCertifiedTextFile_qr fs certified inputPath outputPath certNumber docHash =
     (case fs inputPath of
        None \<Rightarrow> (False, fs)
      | Some originalContent \<Rightarrow>
          (True, fs(outputPath \<mapsto>
             certifiedContent_qr originalContent certified certNumber docHash)))"


subsection \<open>Plain text: the search for the footer line\<close>

text \<open>
  \<open>content.match(/QR Data \(for verification\): ({.*?})/)\<close> in the verify-upload handler
  (\<open>part_003\<close>, line 576). Without the \<open>g\<close> flag \<open>match\<close> returns the leftmost match;
  group 1 is an opening brace, then as few characters as possible other than line
  terminators (line feed, carriage return, U+2028, U+2029), then a closing brace.
  \<open>lazy_to_brace\<close> matches \<open>.*?}\<close> at the head of its argument, \<open>match_at\<close> the whole
  pattern at the head, and \<open>String_match_qr\<close> tries every start position from the left
  and returns group 1 of the first match.
\<close>

definition line_terminator_at :: "string \<Rightarrow> bool" where
  "line_terminator_at s =
     (take 1 s = [CHR 0x0A] \<or> take 1 s = [CHR 0x0D]
      \<or> take 3 s = [CHR 0xE2, CHR 0x80, CHR 0xA8] \<or> take 3 s = [CHR 0xE2, CHR 0x80, CHR 0xA9])"

fun lazy_to_brace :: "string \<Rightarrow> string option" where
  "lazy_to_brace [] = None"
| "lazy_to_brace (c # cs) =
     (if c = CHR ''}'' then Some [c]
      else if line_terminator_at (c # cs) then None
      else map_option ((#) c) (lazy_to_brace cs))"

definition qr_marker :: string where
  "qr_marker = ''QR Data (for verification): ''"

definition match_at :: "string \<Rightarrow> string option" where
  "match_at s =
     (if take (length qr_marker + 1) s = qr_marker @ ''{''
      then map_option ((#) CHR ''{'') (lazy_to_brace (drop (length qr_marker + 1) s))
      else None)"

fun String_match_qr :: "string \<Rightarrow> string option" where
  "String_match_qr [] = None"
| "String_match_qr (c # cs) =
     (case match_at (c # cs) of Some g \<Rightarrow> Some g | None \<Rightarrow> String_match_qr cs)"

text \<open>
  The bytes that end group 1 or make the lazy part fail: the closing brace, and the first
  byte of each line terminator.
\<close>

definition breaks_group :: "char set" where
  "breaks_group = {CHR ''}'', CHR 0x0A, CHR 0x0D, CHR 0xE2}"

subsection \<open>JavaScript values and the packages the server calls\<close>

text \<open>
  A parsed JSON value; the members of an object have distinct names. A member that is
  absent reads as \<open>undefined\<close>, which is \<open>None\<close> where a value is optional. \<open>property\<close> reads a member of a value that is
  not \<open>null\<close> (of a primitive or an array it is \<open>undefined\<close>); \<open>truthy\<close> is the
  test that \<open>!x\<close> negates.
\<close>

datatype json =
  JNull | JBool bool | JNum real | JStr string | JArr "json list" | JObj "(string \<times> json) list"

fun property :: "json \<Rightarrow> string \<Rightarrow> json option" where
  "property (JObj members) k = map_of members k"
| "property v k = None"

fun truthy :: "json option \<Rightarrow> bool" where
  "truthy None = False"
| "truthy (Some JNull) = False"
| "truthy (Some (JBool b)) = b"
| "truthy (Some (JNum x)) = (x \<noteq> 0)"
| "truthy (Some (JStr s)) = (s \<noteq> [])"
| "truthy (Some (JArr xs)) = True"
| "truthy (Some (JObj ms)) = True"

text \<open>
  A PDF document as \<open>pdf-lib\<close> presents it: the metadata the server sets and reads,
  and for each page what has been drawn on it, in order. Positions, sizes, fonts and
  colours are left out.
\<close>

datatype drawing = Rectangle | Image string | Text string | Line

record PDFDocument =
  pdf_title :: "string option"
  pdf_subject :: "string option"
  pdf_keywords :: "string list"
  pdf_pages :: "drawing list list"

definition PDFDocument_create :: PDFDocument where
  "PDFDocument_create =
     \<lparr>pdf_title = None, pdf_subject = None, pdf_keywords = [], pdf_pages = []\<rparr>"

text \<open>
  What the packages compute is a parameter of the model:
  \<^item> \<open>PDFDocument.load\<close> (\<open>None\<close> when it throws) and \<open>save\<close>;
  \<^item> \<open>QRCode.toBuffer\<close> (\<open>None\<close> when it fails), \<open>embedPng\<close> and \<open>embedJpg\<close>
    (whether they accept the bytes);
  \<^item> \<open>JSON.parse\<close> of a JavaScript value (\<open>None\<close> when it throws a SyntaxError);
  \<^item> the SHA-256 digest in hexadecimal, and \<open>keccak256\<close> as the chain computes it;
  \<^item> \<open>new Date(ms).toLocaleString()\<close>;
  \<^item> the message of the error that \<open>ethers\<close> throws for a reverted transaction, and
    the one it throws for an argument that is not a string;
  \<^item> the message of the TypeError for destructuring \<open>null\<close>.
\<close>

record library =
  PDFDocument_load :: "string \<Rightarrow> PDFDocument option"
  PDFDocument_save :: "PDFDocument \<Rightarrow> string"
  QRCode_toBuffer :: "string \<Rightarrow> string option"
  embedPng :: "string \<Rightarrow> bool"
  embedJpg :: "string \<Rightarrow> bool"
  JSON_parse :: "json \<Rightarrow> json option"
  sha256_hex :: "string \<Rightarrow> string"
  chain_keccak256 :: "string \<Rightarrow> uint256"
  Date_toLocaleString :: "real \<Rightarrow> string"
  revert_message :: "string \<Rightarrow> string"
  invalid_argument_message :: string
  destructure_null_message :: string

text \<open>
  What the surroundings supply while one request is served: the clock and the random
  draw when the upload middleware names the stored file, the clock and the random draw
  when the handler generates the certificate number, the local date string of the moment,
  and for a transaction the timestamp of its block and its hash. \<open>rpc_error\<close> is the message of the error a call to the node fails with,
  \<open>None\<close> when the node answers.
\<close>

record request_env =
  storage_Date_now :: int
  storage_Math_random :: unit_double
  Date_now :: int
  Math_random :: unit_double
  Date_locale_now :: string
  block_timestamp :: uint256
  tx_hash :: string
  rpc_error :: "string option"

text \<open>
  The directories, relative to \<open>__dirname\<close>. \<open>path.join\<close> of a directory and a file
  name puts a slash between them.
\<close>

definition uploadsDir :: string where "uploadsDir = ''uploads''"
definition certifiedDir :: string where "certifiedDir = ''certified-documents''"
definition qrDir :: string where "qrDir = ''qr-codes''"

definition path_join :: "string \<Rightarrow> string \<Rightarrow> string" where
  "path_join dir name = dir @ ''/'' @ name"

subsection \<open>PDF: stamping and reading back (\<open>part_003\<close>)\<close>

text \<open>
  \<open>generateQRCode\<close>, lines 70 to 96: the payload is rendered as a PNG, which is also
  saved under \<open>qrDir\<close>; any failure is caught and gives \<open>null\<close>.
\<close>

definition generateQRCode ::
  "library \<Rightarrow> filesystem \<Rightarrow> string \<Rightarrow> string \<Rightarrow> string option \<times> filesystem" where
  "generateQRCode lib fs certNumber docHash =
     (let verificationData = JSON_stringify_cert_hash certNumber docHash in
      case QRCode_toBuffer lib verificationData of
        None \<Rightarrow> (None, fs)
      | Some qrBuffer \<Rightarrow>
          (let qrFilePath = path_join qrDir (certNumber @ ''.png'')
           in (Some qrBuffer, fs(qrFilePath \<mapsto> qrBuffer))))"

text \<open>
  \<open>extractQRDataFromPDF\<close>, lines 99 to 118: the title, when it is set, is not empty and
  starts with \<open>QR:\<close>, without these three characters; \<open>null\<close> otherwise and when
  reading or loading throws.
\<close>

definition extractQRDataFromPDF :: "library \<Rightarrow> filesystem \<Rightarrow> string \<Rightarrow> string option" where
  "extractQRDataFromPDF lib fs pdfPath =
     (case fs pdfPath of
        None \<Rightarrow> None
      | Some pdfBytes \<Rightarrow>
          (case PDFDocument_load lib pdfBytes of
             None \<Rightarrow> None
           | Some pdfDoc \<Rightarrow>
               (case pdf_title pdfDoc of
                  None \<Rightarrow> None
                | Some metadata \<Rightarrow>
                    if metadata \<noteq> [] \<and> take 3 metadata = ''QR:''
                    then Some (drop 3 metadata) else None)))"

text \<open>
  \<open>addMinimalCertificateToPDF\<close>, lines 121 to 219. The metadata is set first; the
  footer is drawn on the first page (a document without pages makes \<open>getSize\<close> throw);
  the output is written last, so every failure leaves no output file.
\<close>

definition certificate_footer :: "string \<Rightarrow> string \<Rightarrow> drawing list" where
  "certificate_footer qrBuffer certNumber =
     [Rectangle, Image qrBuffer,
      Text ''BLOCKCHAIN VERIFIED CERTIFICATE'',
      Text (''Certificate No: '' @ certNumber),
      Text ''Upload this document to verify authenticity'',
      Line]"

definition set_certificate_metadata :: "string \<Rightarrow> string \<Rightarrow> PDFDocument \<Rightarrow> PDFDocument" where
  "set_certificate_metadata certNumber docHash pdfDoc =
     (let qrData = JSON_stringify_cert_hash certNumber docHash
      in pdfDoc\<lparr>pdf_title := Some (''QR:'' @ qrData),
                pdf_subject := Some ''Blockchain Verified Certificate'',
                pdf_keywords := [certNumber, ''blockchain'', ''verified'']\<rparr>)"

definition addMinimalCertificateToPDF ::
  "library \<Rightarrow> filesystem \<Rightarrow> string \<Rightarrow> string \<Rightarrow> string \<Rightarrow> string \<Rightarrow> bool \<times> filesystem" where
  "addMinimalCertificateToPDF lib fs inputPath outputPath certNumber docHash =
     (case fs inputPath of
        None \<Rightarrow> (False, fs)
      | Some existingPdfBytes \<Rightarrow>
          (case PDFDocument_load lib existingPdfBytes of
             None \<Rightarrow> (False, fs)
           | Some loaded \<Rightarrow>
               (let pdfDoc = set_certificate_metadata certNumber docHash loaded in
                case pdf_pages pdfDoc of
                  [] \<Rightarrow> (False, fs)
                | firstPage # otherPages \<Rightarrow>
                    (case generateQRCode lib fs certNumber docHash of
                       (None, fs1) \<Rightarrow> (False, fs1)
                     | (Some qrBuffer, fs1) \<Rightarrow>
                         (let drawn = firstPage @ certificate_footer qrBuffer certNumber;
                              pdfBytes = PDFDocument_save lib
                                (pdfDoc\<lparr>pdf_pages := drawn # otherPages\<rparr>)
                          in (True, fs1(outputPath \<mapsto> pdfBytes)))))))"

subsection \<open>File names: \<open>path.extname\<close>, \<open>path.basename\<close>, \<open>toLowerCase\<close>\<close>

text \<open>
  Node's \<open>path.extname\<close> (POSIX) scans the path from its end. \<open>extname_scan p n st\<close>
  runs the loop over the indices below \<open>n\<close>, downwards; \<open>-1\<close> for "not seen yet" is
  \<open>None\<close>. The loop stops at the slash that precedes the last component.
\<close>

record extname_state =
  startDot :: "nat option"
  startPart :: nat
  end_of_name :: "nat option"
  matchedSlash :: bool
  preDotState :: int

definition extname_step :: "char \<Rightarrow> nat \<Rightarrow> extname_state \<Rightarrow> extname_state" where
  \<comment> \<open>the body of the loop at index \<open>i\<close>, for a character \<open>code\<close> that is not a slash\<close>
  "extname_step code i st =
     (let st1 = (if end_of_name st = None
                 then st\<lparr>matchedSlash := False, end_of_name := Some (i + 1)\<rparr> else st)
      in if code = CHR ''.'' then
           (if startDot st1 = None then st1\<lparr>startDot := Some i\<rparr>
            else if preDotState st1 \<noteq> 1 then st1\<lparr>preDotState := 1\<rparr>
            else st1)
         else if startDot st1 \<noteq> None then st1\<lparr>preDotState := - 1\<rparr>
         else st1)"

fun extname_scan :: "string \<Rightarrow> nat \<Rightarrow> extname_state \<Rightarrow> extname_state" where
  "extname_scan p 0 st = st"
| "extname_scan p (Suc i) st =
     (if p ! i = CHR ''/'' then
        (if \<not> matchedSlash st then st\<lparr>startPart := i + 1\<rparr>
         else extname_scan p i st)
      else extname_scan p i (extname_step (p ! i) i st))"

definition extname_result :: "string \<Rightarrow> extname_state \<Rightarrow> string" where
  \<comment> \<open>what follows the loop\<close>
  "extname_result p st =
     (case (startDot st, end_of_name st) of
        (Some sd, Some e) \<Rightarrow>
          if preDotState st = 0
             \<or> (preDotState st = 1 \<and> sd = e - 1 \<and> sd = startPart st + 1)
          then []
          else take (e - sd) (drop sd p)
      | _ \<Rightarrow> [])"

definition path_extname :: "string \<Rightarrow> string" where
  "path_extname p =
     extname_result p
       (extname_scan p (length p)
          \<lparr>startDot = None, startPart = 0, end_of_name = None,
           matchedSlash = True, preDotState = 0\<rparr>)"

text \<open>
  \<open>path.basename(p, sfx)\<close> (POSIX): the last component of the path, trailing slashes
  aside; a suffix that the component ends with, and that is not the whole component, is
  taken off. With an empty suffix it is the component itself.
\<close>

definition last_component :: "string \<Rightarrow> string" where
  "last_component p =
     (let trimmed = rev (dropWhile (\<lambda>c. c = CHR ''/'') (rev p))
      in rev (takeWhile (\<lambda>c. c \<noteq> CHR ''/'') (rev trimmed)))"

definition path_basename :: "string \<Rightarrow> string \<Rightarrow> string" where
  "path_basename p sfx =
     (if sfx \<noteq> [] \<and> sfx = p then []
      else (let base = last_component p
            in if sfx \<noteq> [] \<and> length sfx < length base
                  \<and> drop (length base - length sfx) base = sfx
               then take (length base - length sfx) base
               else base))"

text \<open>\<open>toLowerCase\<close> on the ASCII letters; the other bytes stay.\<close>

definition lower_char :: "char \<Rightarrow> char" where
  "lower_char c =
     (case map_of (zip ''ABCDEFGHIJKLMNOPQRSTUVWXYZ'' ''abcdefghijklmnopqrstuvwxyz'') c of
        Some l \<Rightarrow> l
      | None \<Rightarrow> c)"

definition toLowerCase :: "string \<Rightarrow> string" where
  "toLowerCase s = map lower_char s"

text \<open>
  \<open>replace(/[^a-zA-Z0-9_-]/g, '_')\<close> works on UTF-16 code units: a character outside
  ASCII is one unit, or two when it lies beyond the basic plane, and each unit becomes
  one underscore. On the UTF-8 bytes: the first byte of a sequence gives the underscores,
  the continuation bytes give nothing.
\<close>

definition is_name_char :: "char \<Rightarrow> bool" where
  "is_name_char c =
     (c \<in> set ''abcdefghijklmnopqrstuvwxyzABCDEFGHIJKLMNOPQRSTUVWXYZ0123456789_-'')"

definition clean_unit :: "char \<Rightarrow> string" where
  "clean_unit c =
     (let n = (of_char c :: nat) in
      if is_name_char c then [c]
      else if n < 0x80 then ''_''
      else if n < 0xC0 then []
      else if n < 0xF0 then ''_''
      else ''__'')"

definition replace_unsafe :: "string \<Rightarrow> string" where
  "replace_unsafe s = concat (map clean_unit s)"

subsection \<open>The upload middleware\<close>

text \<open>
  \<open>fileFilter\<close> (\<open>part_003\<close> lines 47 to 52, \<open>part_002\<close> lines 58 to 67): the regular
  expression \<open>/pdf|png|jpg|jpeg|txt/\<close> is tested against the lower-cased extension; it
  has no anchors, so it asks whether one of the five words occurs somewhere in it.
  The result is \<open>cb(null, true)\<close> or \<open>cb(new Error(...))\<close>; the two variants differ in
  the wording of the error only.
\<close>

definition allowedTypes_test :: "string \<Rightarrow> bool" where
  "allowedTypes_test s =
     (sublist ''pdf'' s \<or> sublist ''png'' s \<or> sublist ''jpg'' s
      \<or> sublist ''jpeg'' s \<or> sublist ''txt'' s)"

definition fileFilter :: "string \<Rightarrow> string + bool" where
  "fileFilter originalname =
     (let extname = allowedTypes_test (toLowerCase (path_extname originalname))
      in if extname then Inr True
         else Inl ''Only PDF, PNG, JPG, JPEG, and TXT files allowed'')"

text \<open>
  \<open>upload.single('document')\<close> with the disk storage and the limit of the source: a file
  the filter refuses is an error, a file of more than \<open>10 * 1024 * 1024\<close> bytes is the
  error \<open>LIMIT_FILE_SIZE\<close> and is not kept, any other file is written under
  \<open>uploadsDir\<close> with the name the \<open>filename\<close> callback makes and handed to the handler
  as \<open>req.file\<close>. A request without the file field goes on with \<open>req.file\<close> undefined.
  The name is \<open>Date.now() + '-' + Math.round(Math.random() * 1E9)\<close> and the
  extension, the product taken in double precision; \<open>Math.round\<close> rounds to the
  nearest integer, a half upwards.
\<close>

record incoming_file =
  client_filename :: string
  file_bytes :: string

record uploaded_file =
  originalname :: string
  path :: string
  file_size :: nat

datatype upload_error = FileFilterError string | LIMIT_FILE_SIZE

definition fileSize_limit :: nat where
  "fileSize_limit = 10 * 1024 * 1024"

definition Math_round :: "real \<Rightarrow> int" where
  "Math_round x = \<lfloor>x + 1 / 2\<rfloor>"

definition upload_single ::
  "request_env \<Rightarrow> filesystem \<Rightarrow> incoming_file option
     \<Rightarrow> upload_error + (uploaded_file option \<times> filesystem)" where
  "upload_single env fs incoming =
     (case incoming of
        None \<Rightarrow> Inr (None, fs)
      | Some file \<Rightarrow>
          (case fileFilter (client_filename file) of
             Inl msg \<Rightarrow> Inl (FileFilterError msg)
           | Inr accepted \<Rightarrow>
               if \<not> accepted then Inr (None, fs)
               else if fileSize_limit < length (file_bytes file) then Inl LIMIT_FILE_SIZE
               else
                 (let uniqueName = Number_toString (storage_Date_now env) @ ''-'' @
                        Number_toString
                          (Math_round (times_double (storage_Math_random env) 1000000000)) @
                        path_extname (client_filename file);
                      stored = path_join uploadsDir uniqueName
                  in Inr (Some \<lparr>originalname = client_filename file, path = stored,
                                  file_size = length (file_bytes file)\<rparr>,
                          fs(stored \<mapsto> file_bytes file)))))"

text \<open>
  The servers install no error-handling middleware. An error that a middleware passes
  to \<open>next\<close> reaches the default handler of Express, which answers with the status the
  error carries (\<open>err.status\<close>, \<open>err.statusCode\<close>) and with 500 when it carries
  none; neither the \<open>Error\<close> of the filter nor the \<open>MulterError\<close> of the limit carries one.
\<close>

definition default_error_status :: "upload_error \<Rightarrow> nat" where
  "default_error_status err = 500"

subsection \<open>Images and the dispatch on the extension (\<open>part_003\<close>)\<close>

text \<open>
  \<open>convertImageToPDF\<close>, lines 222 to 345: a new document with the metadata and one
  page that shows the image and the footer. \<open>embedPng\<close> and \<open>embedJpg\<close> throw on
  bytes they do not accept, which the \<open>catch\<close> turns into \<open>false\<close>.
\<close>

definition convertImageToPDF ::
  "library \<Rightarrow> filesystem \<Rightarrow> string \<Rightarrow> string \<Rightarrow> string \<Rightarrow> string \<Rightarrow> bool \<times> filesystem" where
  "convertImageToPDF lib fs inputPath outputPath certNumber docHash =
     (let pdfDoc = set_certificate_metadata certNumber docHash PDFDocument_create in
      case fs inputPath of
        None \<Rightarrow> (False, fs)
      | Some imageBytes \<Rightarrow>
          (let ext = toLowerCase (path_extname inputPath);
               embedded =
                 (if ext = ''.png'' then Some (embedPng lib imageBytes)
                  else if ext = ''.jpg'' \<or> ext = ''.jpeg'' then Some (embedJpg lib imageBytes)
                  else None)
           in case embedded of
                None \<Rightarrow> (False, fs)
              | Some False \<Rightarrow> (False, fs)
              | Some True \<Rightarrow>
                  (case generateQRCode lib fs certNumber docHash of
                     (None, fs1) \<Rightarrow> (False, fs1)
                   | (Some qrBuffer, fs1) \<Rightarrow>
                       (let page = [Image imageBytes] @ certificate_footer qrBuffer certNumber;
                            pdfBytes = PDFDocument_save lib
                              (pdfDoc\<lparr>pdf_pages := pdf_pages pdfDoc @ [page]\<rparr>)
                        in (True, fs1(outputPath \<mapsto> pdfBytes))))))"

text \<open>
  \<open>processCertifiedDocument\<close>, lines 378 to 412: the path of the stamped file, or
  \<open>null\<close> when the extension has no branch, when the stamping function returns
  \<open>false\<close> or when the output file does not exist afterwards.
\<close>

definition processCertifiedDocument ::
  "library \<Rightarrow> request_env \<Rightarrow> filesystem \<Rightarrow> string \<Rightarrow> string \<Rightarrow> string \<Rightarrow> string
     \<Rightarrow> string option \<times> filesystem" where
  "processCertifiedDocument lib env fs inputPath certNumber docHash originalName =
     (let ext = toLowerCase (path_extname originalName);
          baseName = replace_unsafe (path_basename originalName ext);
          finish = (\<lambda>outputPath (success, fs1).
                      if success \<and> fs1 outputPath \<noteq> None then (Some outputPath, fs1)
                      else (None, fs1))
      in if ext = ''.pdf'' then
           (let certifiedFileName = baseName @ ''_CERTIFIED_'' @ certNumber @ ''.pdf'';
                outputPath = path_join certifiedDir certifiedFileName
            in finish outputPath
                 (addMinimalCertificateToPDF lib fs inputPath outputPath certNumber docHash))
         else if ext = ''.png'' \<or> ext = ''.jpg'' \<or> ext = ''.jpeg'' then
           (let certifiedFileName = baseName @ ''_CERTIFIED_'' @ certNumber @ ''.pdf'';
                outputPath = path_join certifiedDir certifiedFileName
            in finish outputPath
                 (convertImageToPDF lib fs inputPath outputPath certNumber docHash))
         else if ext = ''.txt'' then
           (let certifiedFileName = baseName @ ''_CERTIFIED_'' @ certNumber @ ''.txt'';
                outputPath = path_join certifiedDir certifiedFileName
            in finish outputPath
                 (createCertifiedTextFile_qr fs (Date_locale_now env) inputPath outputPath
                    certNumber docHash))
         else (None, fs))"

section \<open>The server: \<open>BlockchainService\<close> and the request handlers\<close>

text \<open>
  What a request can change: the files on disk and the ledger. \<open>registry_calls\<close> is
  the list of the calls that \<open>BlockchainService\<close> has sent to the contract, in order;
  the server does not read it.
\<close>

record world =
  files :: filesystem
  ledger :: contract
  registry_calls :: "call list"

subsection \<open>\<open>BlockchainService\<close> (\<open>part_001\<close>)\<close>

text \<open>
  Each method wraps one contract call in \<open>try\<close>/\<open>catch\<close> and returns
  \<open>{ success: true, ... }\<close> or \<open>{ success: false, error: error.message }\<close>. A call
  throws when the node does not answer, when the transaction reverts, and, before anything
  is sent, when an argument is not a string. \<open>Number(timestamp)\<close> is the timestamp as a
  JavaScript number, which is the same integer below \<open>2^53\<close>; the model reads the word as
  a natural number.
\<close>

datatype 'a service_result = Failure string | Success 'a

fun as_string :: "json \<Rightarrow> string option" where
  "as_string (JStr s) = Some s"
| "as_string v = None"

definition BlockchainService_registerDocument ::
  "library \<Rightarrow> request_env \<Rightarrow> world \<Rightarrow> string \<Rightarrow> string \<Rightarrow> string service_result \<times> world" where
  "BlockchainService_registerDocument lib env w certNumber docHash =
     (let w1 = w\<lparr>registry_calls := registry_calls w @ [Register certNumber docHash]\<rparr> in
      case rpc_error env of
        Some msg \<Rightarrow> (Failure msg, w1)
      | None \<Rightarrow>
          (case registerDocument (block_timestamp env) certNumber docHash (ledger w) of
             Inl (Revert reason) \<Rightarrow> (Failure (revert_message lib reason), w1)
           | Inr s' \<Rightarrow> (Success (tx_hash env), w1\<lparr>ledger := s'\<rparr>)))"

definition BlockchainService_verifyDocument ::
  "library \<Rightarrow> request_env \<Rightarrow> world \<Rightarrow> json \<Rightarrow> json \<Rightarrow> (bool \<times> nat) service_result \<times> world" where
  "BlockchainService_verifyDocument lib env w certNumber docHash =
     (case (as_string certNumber, as_string docHash) of
        (Some cn, Some dh) \<Rightarrow>
          (let w1 = w\<lparr>registry_calls := registry_calls w @ [Verify cn dh]\<rparr> in
           case rpc_error env of
             Some msg \<Rightarrow> (Failure msg, w1)
           | None \<Rightarrow>
               (case verifyDocument (chain_keccak256 lib) (ledger w) cn dh of
                  (isValid, ts) \<Rightarrow> (Success (isValid, unat ts), w1)))
      | _ \<Rightarrow> (Failure (invalid_argument_message lib), w))"

definition BlockchainService_getDocument ::
  "library \<Rightarrow> request_env \<Rightarrow> world \<Rightarrow> json
     \<Rightarrow> (string \<times> string \<times> nat \<times> bool) service_result \<times> world" where
  "BlockchainService_getDocument lib env w certNumber =
     (case as_string certNumber of
        Some cn \<Rightarrow>
          (let w1 = w\<lparr>registry_calls := registry_calls w @ [GetDocument cn]\<rparr> in
           case rpc_error env of
             Some msg \<Rightarrow> (Failure msg, w1)
           | None \<Rightarrow>
               (case getDocument (ledger w) cn of
                  (certNum, hash, ts, found) \<Rightarrow> (Success (certNum, hash, unat ts, found), w1)))
      | None \<Rightarrow> (Failure (invalid_argument_message lib), w))"

subsection \<open>Responses\<close>

text \<open>
  \<open>res.status(n).json({...})\<close> is the status with the members of the object, in order;
  \<open>res.json\<close> alone has status 200. A member whose value is \<open>undefined\<close> is left out
  by the serialisation. The default error page of Express is the other kind of response.
\<close>

datatype response = Json nat "(string \<times> json) list" | ErrorPage nat

fun status_of :: "response \<Rightarrow> nat" where
  "status_of (Json n members) = n"
| "status_of (ErrorPage n) = n"

fun member_of :: "response \<Rightarrow> string \<Rightarrow> json option" where
  "member_of (Json n members) k = map_of members k"
| "member_of (ErrorPage n) k = None"

definition optional_member :: "string \<Rightarrow> json option \<Rightarrow> (string \<times> json) list" where
  "optional_member k v = (case v of None \<Rightarrow> [] | Some j \<Rightarrow> [(k, j)])"

definition truthy_value :: "json option \<Rightarrow> json option" where
  "truthy_value v = (if truthy v then v else None)"

definition ENOENT_message :: "string \<Rightarrow> string \<Rightarrow> string" where
  "ENOENT_message syscall p =
     ''ENOENT: no such file or directory, '' @ syscall @ '' '' @ [CHR 0x27] @ p @ [CHR 0x27]"

definition check_mark :: string where
  \<comment> \<open>U+2713\<close>
  "check_mark = [CHR 0xE2, CHR 0x9C, CHR 0x93]"

definition ballot_x :: string where
  \<comment> \<open>U+2717\<close>
  "ballot_x = [CHR 0xE2, CHR 0x9C, CHR 0x97]"

subsection \<open>\<open>POST /api/upload\<close> (\<open>part_003\<close>, lines 441 to 502)\<close>

text \<open>
  \<open>unlink_if_exists\<close> is \<open>if (filePath && fs.existsSync(filePath)) fs.unlinkSync(filePath)\<close>.
  The handler has four exits after the file has arrived: the \<open>catch\<close> (here reached when
  \<open>generateDocumentHash\<close> cannot read the file), the failed registration, the failed
  processing, and the success. The \<open>/api/upload\<close> handler of the watermark variant
  (\<open>part_002\<close>, lines 483 to 562) has the same exits with the same clean-up; it differs in
  the wording of the errors and in the stamping functions it calls.
\<close>

definition unlink_if_exists :: "filesystem \<Rightarrow> string \<Rightarrow> filesystem" where
  "unlink_if_exists fs filePath = (if fs filePath \<noteq> None then fs(filePath := None) else fs)"

definition api_upload ::
  "library \<Rightarrow> request_env \<Rightarrow> world \<Rightarrow> uploaded_file option \<Rightarrow> response \<times> world" where
  "api_upload lib env w req_file =
     (case req_file of
        None \<Rightarrow> (Json 400 [(''error'', JStr ''No file uploaded'')], w)
      | Some file \<Rightarrow>
          (let filePath = path file;
               certNumber = generateCertificateNumber (Date_now env) (Math_random env)
           in case files w filePath of
                None \<Rightarrow>
                  (Json 500 [(''error'', JStr ''Server error''),
                             (''details'', JStr (ENOENT_message ''open'' filePath))],
                   w\<lparr>files := unlink_if_exists (files w) filePath\<rparr>)
              | Some fileBuffer \<Rightarrow>
                  (let originalDocumentHash = sha256_hex lib fileBuffer in
                   case BlockchainService_registerDocument lib env w certNumber
                          originalDocumentHash of
                     (Failure err, w1) \<Rightarrow>
                       (Json 500 [(''error'', JStr ''Blockchain registration failed''),
                                  (''details'', JStr err)],
                        w1\<lparr>files := unlink_if_exists (files w1) filePath\<rparr>)
                   | (Success txHash, w1) \<Rightarrow>
                       (case processCertifiedDocument lib env (files w1) filePath certNumber
                               originalDocumentHash (originalname file) of
                          (None, fs2) \<Rightarrow>
                            (Json 500 [(''error'', JStr ''Document processing failed'')],
                             w1\<lparr>files := fs2\<rparr>)
                        | (Some certifiedPath, fs2) \<Rightarrow>
                            (let certifiedFileName = path_basename certifiedPath [];
                                 downloadUrl = ''http://localhost:'' @ Number_toString PORT @
                                   ''/download/'' @ certifiedFileName
                             in (Json 200
                                   [(''success'', JBool True),
                                    (''certificateNumber'', JStr certNumber),
                                    (''documentHash'', JStr originalDocumentHash),
                                    (''fileName'', JStr (originalname file)),
                                    (''certifiedFileName'', JStr certifiedFileName),
                                    (''fileSize'', JNum (real (file_size file))),
                                    (''txHash'', JStr txHash),
                                    (''downloadUrl'', JStr downloadUrl),
                                    (''qrData'', JStr (JSON_stringify_cert_hash certNumber
                                                        originalDocumentHash)),
                                    (''message'', JStr (''Document certified! QR data embedded '' @
                                       ''in PDF. Simply upload the certified PDF to verify.''))],
                                 w1\<lparr>files := fs2\<rparr>))))))"

text \<open>The route: the upload middleware, then the handler.\<close>

definition post_api_upload ::
  "library \<Rightarrow> request_env \<Rightarrow> world \<Rightarrow> incoming_file option \<Rightarrow> response \<times> world" where
  "post_api_upload lib env w incoming =
     (case upload_single env (files w) incoming of
        Inl err \<Rightarrow> (ErrorPage (default_error_status err), w)
      | Inr (req_file, fs1) \<Rightarrow> api_upload lib env (w\<lparr>files := fs1\<rparr>) req_file)"

subsection \<open>The verdict\<close>

text \<open>
  The three verification handlers end alike: \<open>verifyDocument\<close> through the service,
  then \<open>getDocument\<close>, then one JSON object. The message is chosen by \<open>isValid\<close> alone.
  \<open>documentInfo.documentHash\<close> is \<open>undefined\<close> when \<open>getDocument\<close> failed.
\<close>

definition valid_message_wm :: string where
  "valid_message_wm = check_mark @ '' Document is VALID and verified on blockchain''"

definition invalid_message_wm :: string where
  "invalid_message_wm =
     ballot_x @ '' Document verification FAILED - hash mismatch or certificate not found''"

definition valid_message_qr :: string where
  "valid_message_qr = check_mark @ '' VALID - Certificate verified on blockchain''"

definition invalid_message_qr :: string where
  "invalid_message_qr =
     ballot_x @ '' INVALID - Certificate not found or has been tampered with''"

definition valid_message_upload :: string where
  "valid_message_upload =
     check_mark @ '' VALID - Certificate is authentic and verified on blockchain''"

definition invalid_message_upload :: string where
  "invalid_message_upload =
     ballot_x @ '' INVALID - Certificate has been tampered with or is not authentic''"

definition registered_hash :: "(string \<times> string \<times> nat \<times> bool) service_result \<Rightarrow> json option" where
  "registered_hash documentInfo =
     (case documentInfo of
        Failure err \<Rightarrow> None
      | Success (certNum, hash, ts, found) \<Rightarrow> Some (JStr hash))"

subsection \<open>\<open>POST /api/verify\<close> (\<open>part_002\<close>, lines 630 to 671)\<close>

text \<open>
  The arguments are the members \<open>certificateNumber\<close> and \<open>documentHash\<close> of the
  request body, an object that \<open>express.json()\<close> has parsed; a member that is missing
  is \<open>undefined\<close>.
\<close>

definition api_verify ::
  "library \<Rightarrow> request_env \<Rightarrow> world \<Rightarrow> json option \<Rightarrow> json option \<Rightarrow> response \<times> world" where
  "api_verify lib env w body_certificateNumber body_documentHash =
     (case (truthy_value body_certificateNumber, truthy_value body_documentHash) of
        (Some certNumber, Some docHash) \<Rightarrow>
          (case BlockchainService_verifyDocument lib env w certNumber docHash of
             (Failure err, w1) \<Rightarrow>
               (Json 500 [(''error'', JStr ''Verification failed''), (''details'', JStr err)], w1)
           | (Success (isValid, ts), w1) \<Rightarrow>
               (case BlockchainService_getDocument lib env w1 certNumber of
                  (documentInfo, w2) \<Rightarrow>
                    (Json 200
                       ([(''success'', JBool True),
                         (''isValid'', JBool isValid),
                         (''certificateNumber'', certNumber),
                         (''timestamp'', JNum (real ts))] @
                        optional_member ''registeredHash'' (registered_hash documentInfo) @
                        [(''providedHash'', docHash),
                         (''registrationDate'',
                            JStr (Date_toLocaleString lib (real ts * 1000))),
                         (''message'', JStr (if isValid then valid_message_wm
                                             else invalid_message_wm))]),
                     w2)))
      | _ \<Rightarrow>
          (Json 400 [(''error'', JStr ''Certificate number and document hash are required'')],
           w))"

subsection \<open>\<open>POST /api/verify-qr\<close> (\<open>part_003\<close>, lines 505 to 552)\<close>

text \<open>
  The argument is the member \<open>qrData\<close> of the request body.
  \<open>const { cert, hash } = parsedData\<close> throws a TypeError when \<open>JSON.parse\<close> returned
  \<open>null\<close>; the \<open>catch\<close> of the handler answers it with 500.
\<close>

definition api_verify_qr ::
  "library \<Rightarrow> request_env \<Rightarrow> world \<Rightarrow> json option \<Rightarrow> response \<times> world" where
  "api_verify_qr lib env w body_qrData =
     (case truthy_value body_qrData of
        None \<Rightarrow> (Json 400 [(''error'', JStr ''QR data is required'')], w)
      | Some qrData \<Rightarrow>
          (case JSON_parse lib qrData of
             None \<Rightarrow> (Json 400 [(''error'', JStr ''Invalid QR data format'')], w)
           | Some JNull \<Rightarrow>
               (Json 500 [(''error'', JStr ''Server error''),
                          (''details'', JStr (destructure_null_message lib))], w)
           | Some parsedData \<Rightarrow>
               (case (truthy_value (property parsedData ''cert''),
                      truthy_value (property parsedData ''hash'')) of
                  (Some cert, Some hash) \<Rightarrow>
                    (case BlockchainService_verifyDocument lib env w cert hash of
                       (Failure err, w1) \<Rightarrow>
                         (Json 500 [(''error'', JStr ''Verification failed''),
                                    (''details'', JStr err)], w1)
                     | (Success (isValid, ts), w1) \<Rightarrow>
                         (case BlockchainService_getDocument lib env w1 cert of
                            (documentInfo, w2) \<Rightarrow>
                              (Json 200
                                 ([(''success'', JBool True),
                                   (''isValid'', JBool isValid),
                                   (''certificateNumber'', cert),
                                   (''timestamp'', JNum (real ts))] @
                                  optional_member ''registeredHash''
                                    (registered_hash documentInfo) @
                                  [(''scannedHash'', hash),
                                   (''registrationDate'',
                                      JStr (Date_toLocaleString lib (real ts * 1000))),
                                   (''message'', JStr (if isValid then valid_message_qr
                                                       else invalid_message_qr))]),
                               w2)))
                | _ \<Rightarrow>
                    (Json 400 [(''error'', JStr ''Invalid QR data: missing cert or hash'')],
                     w))))"

subsection \<open>\<open>POST /api/verify-upload\<close>, QR variant (\<open>part_003\<close>, lines 555 to 638)\<close>

text \<open>
  The payload is looked for in a \<open>.pdf\<close> and in a \<open>.txt\<close> only. Then the uploaded file
  is deleted, whatever was found. When the uploaded file is not on disk, reading it (for
  a text) or deleting it throws, and the \<open>catch\<close> answers with 500. An empty payload
  counts as none (\<open>!qrData\<close>).
\<close>

definition no_certificate_response :: response where
  "no_certificate_response =
     Json 400
       [(''error'', JStr ''No certificate found in document''),
        (''message'', JStr (''This document does not appear to be a certified document. '' @
           ''Please upload a certified document with QR code.''))]"

definition api_verify_upload_qr ::
  "library \<Rightarrow> request_env \<Rightarrow> world \<Rightarrow> uploaded_file option \<Rightarrow> response \<times> world" where
  "api_verify_upload_qr lib env w req_file =
     (case req_file of
        None \<Rightarrow> (Json 400 [(''error'', JStr ''No file uploaded'')], w)
      | Some file \<Rightarrow>
          (let filePath = path file;
               ext = toLowerCase (path_extname (originalname file))
           in case files w filePath of
                None \<Rightarrow>
                  (Json 500 [(''error'', JStr ''Server error''),
                             (''details'', JStr (ENOENT_message
                                (if ext = ''.txt'' then ''open'' else ''unlink'') filePath))],
                   w\<lparr>files := unlink_if_exists (files w) filePath\<rparr>)
              | Some content \<Rightarrow>
                  (let qrData =
                         (if ext = ''.pdf'' then extractQRDataFromPDF lib (files w) filePath
                          else if ext = ''.txt'' then String_match_qr content
                          else None);
                       w1 = w\<lparr>files := (files w)(filePath := None)\<rparr>
                   in case qrData of
                        None \<Rightarrow> (no_certificate_response, w1)
                      | Some qr \<Rightarrow>
                          if qr = [] then (no_certificate_response, w1)
                          else
                            (case JSON_parse lib (JStr qr) of
                               None \<Rightarrow>
                                 (Json 400 [(''error'',
                                    JStr ''Invalid certificate data in document'')], w1)
                             | Some JNull \<Rightarrow>
                                 (Json 500 [(''error'', JStr ''Server error''),
                                            (''details'', JStr (destructure_null_message lib))],
                                  w1\<lparr>files := unlink_if_exists (files w1) filePath\<rparr>)
                             | Some parsedData \<Rightarrow>
                                 (case (truthy_value (property parsedData ''cert''),
                                        truthy_value (property parsedData ''hash'')) of
                                    (Some cert, Some hash) \<Rightarrow>
                                      (case BlockchainService_verifyDocument lib env w1 cert hash of
                                         (Failure err, w2) \<Rightarrow>
                                           (Json 500 [(''error'', JStr ''Verification failed''),
                                                      (''details'', JStr err)], w2)
                                       | (Success (verified, ts), w2) \<Rightarrow>
                                           (case BlockchainService_getDocument lib env w2 cert of
                                              (documentInfo, w3) \<Rightarrow>
                                                (let isValid = (verified \<and>
                                                       Some hash = registered_hash documentInfo)
                                                 in (Json 200
                                                       ([(''success'', JBool True),
                                                         (''isValid'', JBool isValid),
                                                         (''certificateNumber'', cert),
                                                         (''timestamp'', JNum (real ts))] @
                                                        optional_member ''registeredHash''
                                                          (registered_hash documentInfo) @
                                                        [(''extractedHash'', hash),
                                                         (''registrationDate'',
                                                            JStr (Date_toLocaleString lib
                                                                    (real ts * 1000))),
                                                         (''message'',
                                                            JStr (if isValid
                                                                  then valid_message_upload
                                                                  else invalid_message_upload))]),
                                                     w3))))
                                  | _ \<Rightarrow>
                                      (Json 400 [(''error'',
                                         JStr ''Invalid certificate: missing data'')], w1))))))"

text \<open>The route: the upload middleware, then the handler.\<close>

definition post_api_verify_upload_qr ::
  "library \<Rightarrow> request_env \<Rightarrow> world \<Rightarrow> incoming_file option \<Rightarrow> response \<times> world" where
  "post_api_verify_upload_qr lib env w incoming =
     (case upload_single env (files w) incoming of
        Inl err \<Rightarrow> (ErrorPage (default_error_status err), w)
      | Inr (req_file, fs1) \<Rightarrow> api_verify_upload_qr lib env (w\<lparr>files := fs1\<rparr>) req_file)"

subsection \<open>A concrete setting for the examples\<close>

text \<open>
  An instance of the packages, so that requests can be evaluated: a PDF library that
  loads no bytes at all (every file is a broken PDF to it), a QR encoder that returns
  the text itself, a JSON parser that knows one text, the payload of the certificate
  \<open>CERT-12345678-0042\<close> with fingerprint \<open>ab12\<close>, and digests that are fixed strings
  or lengths. The theorems that hold for all libraries do not mention it.
\<close>

definition sample_library :: library where
  "sample_library =
     \<lparr>PDFDocument_load = (\<lambda>bytes. None),
      PDFDocument_save = (\<lambda>doc. ''%PDF''),
      QRCode_toBuffer = (\<lambda>text. Some text),
      embedPng = (\<lambda>bytes. True),
      embedJpg = (\<lambda>bytes. True),
      JSON_parse = (\<lambda>v. if v = JStr (JSON_stringify_cert_hash ''CERT-12345678-0042'' ''ab12'')
                          then Some (JObj [(''cert'', JStr ''CERT-12345678-0042''),
                                           (''hash'', JStr ''ab12'')])
                          else None),
      sha256_hex = (\<lambda>bytes. ''ab12''),
      chain_keccak256 = (\<lambda>bytes. of_nat (length bytes)),
      Date_toLocaleString = (\<lambda>ms. ''11/3/2026, 9:20:00 AM''),
      revert_message = (\<lambda>reason. ''execution reverted: '' @ reason),
      invalid_argument_message = ''invalid string value'',
      destructure_null_message = ''Cannot destructure property of null''\<rparr>"

definition sample_env :: request_env where
  "sample_env =
     \<lparr>storage_Date_now = 1730625600100,
      storage_Math_random = \<lparr>significand = 1, binary_places = 2\<rparr>,
      Date_now = 1730625600123,
      Math_random = \<lparr>significand = 1, binary_places = 1\<rparr>,
      Date_locale_now = ''11/3/2026, 9:20:00 AM'',
      block_timestamp = 1730625601, tx_hash = ''0xabc'', rpc_error = None\<rparr>"

definition empty_world :: world where
  "empty_world = \<lparr>files = Map.empty, ledger = deployed, registry_calls = []\<rparr>"

definition sample_world :: world where
  "sample_world =
     \<lparr>files = Map.empty,
      ledger = run [(1700000000, Register ''CERT-12345678-0042'' ''ab12'')],
      registry_calls = []\<rparr>"

section \<open>Properties of the ledger registry\<close>

subsection \<open>Records are written once\<close>

lemma exec_keeps_existing:
  "exists (documents s k) \<Longrightarrow> documents (exec s tx) k = documents s k"
proof (cases tx)
  case (Pair t c)
  assume "exists (documents s k)"
  then show ?thesis
    unfolding Pair by (cases c) (auto simp: registerDocument_def)
qed

lemma foldl_exec_keeps_existing:
  "exists (documents s k) \<Longrightarrow> documents (foldl exec s txs) k = documents s k"
proof (induction txs arbitrary: s)
  case Nil
  then show ?case by simp
next
  case (Cons tx txs)
  have step: "documents (exec s tx) k = documents s k"
    using Cons.prems by (rule exec_keeps_existing)
  with Cons.prems have "exists (documents (exec s tx) k)" by simp
  then have "documents (foldl exec (exec s tx) txs) k = documents (exec s tx) k"
    by (rule Cons.IH)
  with step show ?case by simp
qed

lemma registerDocument_writes:
  "registerDocument t cn dh s = Inr s' \<Longrightarrow>
   documents s' cn = \<lparr>certificateNumber = cn, documentHash = dh, timestamp = t, exists = True\<rparr>"
  by (auto simp: registerDocument_def split: if_splits)

text \<open>
  C1. Once \<open>registerDocument\<close> has succeeded for an identifier, then after any further
  calls whatsoever a registration of the same identifier reverts with "Certificate number
  already exists", the stored record is still the one the first registration wrote
  (its fingerprint and its block timestamp), and no call changes or removes a record
  that exists.
\<close>

theorem register_once:
  assumes "registerDocument t1 cn h1 s = Inr s1"
  shows "registerDocument t2 cn h2 (foldl exec s1 txs) = Inl AlreadyExists
       \<and> documents (foldl exec s1 txs) cn =
           \<lparr>certificateNumber = cn, documentHash = h1, timestamp = t1, exists = True\<rparr>
       \<and> (exists (documents s0 k) \<longrightarrow> documents (exec s0 tx) k = documents s0 k)"
proof -
  have w: "documents s1 cn =
      \<lparr>certificateNumber = cn, documentHash = h1, timestamp = t1, exists = True\<rparr>"
    using assms by (rule registerDocument_writes)
  then have "exists (documents s1 cn)" by simp
  then have kept: "documents (foldl exec s1 txs) cn = documents s1 cn"
    by (rule foldl_exec_keeps_existing)
  have "registerDocument t2 cn h2 (foldl exec s1 txs) = Inl AlreadyExists"
    using kept w by (simp add: registerDocument_def AlreadyExists_def)
  then show ?thesis
    using kept w exec_keeps_existing by auto
qed

theorem register_once_witness:
  "registerDocument 1700000000 ''CERT-12345678-0042'' ''ab12'' deployed \<noteq> Inl AlreadyExists
   \<and> registerDocument 1700000999 ''CERT-12345678-0042'' ''ff00''
       (foldl exec (exec deployed (1700000000, Register ''CERT-12345678-0042'' ''ab12''))
          [(1700000500, Register ''CERT-12345678-0042'' ''cd34''),
           (1700000600, Verify ''CERT-12345678-0042'' ''cd34''),
           (1700000700, Register ''CERT-87654321-0007'' ''cd34'')])
       = Inl AlreadyExists
   \<and> documents
       (foldl exec (exec deployed (1700000000, Register ''CERT-12345678-0042'' ''ab12''))
          [(1700000500, Register ''CERT-12345678-0042'' ''cd34''),
           (1700000600, Verify ''CERT-12345678-0042'' ''cd34''),
           (1700000700, Register ''CERT-87654321-0007'' ''cd34'')])
       ''CERT-12345678-0042''
       = \<lparr>certificateNumber = ''CERT-12345678-0042'', documentHash = ''ab12'',
          timestamp = 1700000000, exists = True\<rparr>
   \<and> exists (documents (exec deployed (1700000000, Register ''CERT-12345678-0042'' ''ab12''))
               ''CERT-12345678-0042'')
   \<and> documents
       (exec (exec deployed (1700000000, Register ''CERT-12345678-0042'' ''ab12''))
          (1700000500, Register ''CERT-12345678-0042'' ''cd34''))
       ''CERT-12345678-0042''
       = documents (exec deployed (1700000000, Register ''CERT-12345678-0042'' ''ab12''))
           ''CERT-12345678-0042''"
proof -
  obtain s1 where r:
    "registerDocument 1700000000 ''CERT-12345678-0042'' ''ab12'' deployed = Inr s1"
    by (simp add: registerDocument_def deployed_def zero_Document_def)
  then have e: "exec deployed (1700000000, Register ''CERT-12345678-0042'' ''ab12'') = s1"
    by simp
  have x: "exists (documents s1 ''CERT-12345678-0042'')"
    using registerDocument_writes [OF r] by simp
  show ?thesis
    using r x register_once [OF r, where ?t2.0 = 1700000999 and ?h2.0 = "''ff00''"
        and txs = "[(1700000500, Register ''CERT-12345678-0042'' ''cd34''),
          (1700000600, Verify ''CERT-12345678-0042'' ''cd34''),
          (1700000700, Register ''CERT-87654321-0007'' ''cd34'')]"
        and ?s0.0 = s1 and k = "''CERT-12345678-0042''"
        and tx = "(1700000500, Register ''CERT-12345678-0042'' ''cd34'')"]
    unfolding e by simp
qed

subsection \<open>Verification against the stored fingerprint\<close>

lemma sample_record:
  "documents (ledger sample_world) ''CERT-12345678-0042''
     = \<lparr>certificateNumber = ''CERT-12345678-0042'', documentHash = ''ab12'',
        timestamp = 1700000000, exists = True\<rparr>"
  by (simp add: sample_world_def run_def registerDocument_def deployed_def zero_Document_def)

lemma sample_no_record:
  "documents (ledger sample_world) ''CERT-00000000-0000'' = zero_Document"
  by (simp add: sample_world_def run_def registerDocument_def deployed_def zero_Document_def)

lemma sample_keccak: "chain_keccak256 sample_library = (\<lambda>bytes. of_nat (length bytes))"
  by (simp add: sample_library_def)

lemma sample_rpc: "rpc_error sample_env = None"
  by (simp add: sample_env_def)

text \<open>
  C2. \<open>verifyDocument\<close> answers \<open>(false, 0)\<close> for an identifier that has no record.
  For one that has a record it answers the stored timestamp, whether or not the
  fingerprints agree, and its first component says whether the candidate fingerprint
  equals the stored one. The contract compares the \<open>keccak256\<close> digests of the two
  strings, so the equality of the strings themselves is read off under the premise that
  these two strings do not collide under \<open>keccak256\<close>. \<open>BlockchainService.verifyDocument\<close>
  hands the same two values on, the timestamp as a number, when the node answers.
\<close>

theorem verifyDocument_result:
  assumes "chain_keccak256 lib (documentHash (documents (ledger w) cn)) = chain_keccak256 lib dh
             \<longrightarrow> documentHash (documents (ledger w) cn) = dh"
    and "rpc_error env = None"
  shows "verifyDocument (chain_keccak256 lib) (ledger w) cn dh =
           (if exists (documents (ledger w) cn)
            then (documentHash (documents (ledger w) cn) = dh,
                  timestamp (documents (ledger w) cn))
            else (False, 0))
       \<and> fst (BlockchainService_verifyDocument lib env w (JStr cn) (JStr dh)) =
           Success (if exists (documents (ledger w) cn)
                    then (documentHash (documents (ledger w) cn) = dh,
                          unat (timestamp (documents (ledger w) cn)))
                    else (False, 0))"
  using assms
  by (auto simp: verifyDocument_def BlockchainService_verifyDocument_def Let_def)

theorem verifyDocument_result_witness:
  "verifyDocument (chain_keccak256 sample_library) (ledger sample_world)
       ''CERT-12345678-0042'' ''ab12'' = (True, 1700000000)
   \<and> fst (BlockchainService_verifyDocument sample_library sample_env sample_world
       (JStr ''CERT-12345678-0042'') (JStr ''ab12'')) = Success (True, 1700000000)
   \<and> verifyDocument (chain_keccak256 sample_library) (ledger sample_world)
       ''CERT-12345678-0042'' ''ab12c'' = (False, 1700000000)
   \<and> fst (BlockchainService_verifyDocument sample_library sample_env sample_world
       (JStr ''CERT-12345678-0042'') (JStr ''ab12c'')) = Success (False, 1700000000)
   \<and> verifyDocument (chain_keccak256 sample_library) (ledger sample_world)
       ''CERT-00000000-0000'' ''ab12'' = (False, 0)
   \<and> fst (BlockchainService_verifyDocument sample_library sample_env sample_world
       (JStr ''CERT-00000000-0000'') (JStr ''ab12'')) = Success (False, 0)"
proof -
  let ?k = "chain_keccak256 sample_library"
  let ?d = "documents (ledger sample_world)"
  have a: "?k (documentHash (?d ''CERT-12345678-0042'')) = ?k ''ab12''
             \<longrightarrow> documentHash (?d ''CERT-12345678-0042'') = ''ab12''"
    unfolding sample_record by simp
  have b: "?k (documentHash (?d ''CERT-12345678-0042'')) = ?k ''ab12c''
             \<longrightarrow> documentHash (?d ''CERT-12345678-0042'') = ''ab12c''"
    unfolding sample_record sample_keccak by simp
  have c: "?k (documentHash (?d ''CERT-00000000-0000'')) = ?k ''ab12''
             \<longrightarrow> documentHash (?d ''CERT-00000000-0000'') = ''ab12''"
    unfolding sample_no_record sample_keccak by (simp add: zero_Document_def)
  have u: "unat (1700000000 :: uint256) = 1700000000" by simp
  show ?thesis
    using verifyDocument_result [OF a sample_rpc] verifyDocument_result [OF b sample_rpc]
      verifyDocument_result [OF c sample_rpc]
    unfolding sample_record sample_no_record by (simp add: zero_Document_def u)
qed

subsection \<open>The invariant of the mapping\<close>

lemma record_inv_deployed: "record_inv deployed k"
  by (simp add: record_inv_def deployed_def zero_Document_def)

lemma registerDocument_record_inv:
  assumes "record_inv s k" and "registerDocument t cn dh s = Inr s'"
  shows "record_inv s' k"
proof -
  from assms(2) have fresh: "\<not> exists (documents s cn)"
    and s': "s' = s\<lparr>documents := (documents s)
                      (cn := \<lparr>certificateNumber = cn, documentHash = dh,
                              timestamp = t, exists = True\<rparr>),
                    emitted := emitted s @ [DocumentRegistered cn dh t]\<rparr>"
    by (auto simp: registerDocument_def split: if_splits)
  show ?thesis
  proof (cases "k = cn")
    case True
    with assms(1) fresh have "filter (\<lambda>e. event_certificate e = cn) (emitted s) = []"
      by (simp add: record_inv_def Let_def)
    with True show ?thesis
      unfolding s' by (simp add: record_inv_def Let_def)
  next
    case False
    with assms(1) show ?thesis
      unfolding s' by (simp add: record_inv_def Let_def)
  qed
qed

lemma exec_record_inv: "record_inv s k \<Longrightarrow> record_inv (exec s tx) k"
proof (cases tx)
  case (Pair t c)
  assume inv: "record_inv s k"
  show ?thesis
  proof (cases c)
    case (Register cn dh)
    show ?thesis
    proof (cases "registerDocument t cn dh s")
      case (Inl e)
      with inv show ?thesis unfolding Pair Register by simp
    next
      case (Inr s')
      with inv have "record_inv s' k" by (rule registerDocument_record_inv)
      with Inr show ?thesis unfolding Pair Register by simp
    qed
  next
    case (Verify cn dh)
    with inv show ?thesis unfolding Pair by simp
  next
    case (GetDocument cn)
    with inv show ?thesis unfolding Pair by simp
  qed
qed

lemma foldl_exec_record_inv: "record_inv s k \<Longrightarrow> record_inv (foldl exec s txs) k"
  by (induction txs arbitrary: s) (simp_all add: exec_record_inv)

text \<open>
  C9. In every reachable state of the contract and for every key \<open>k\<close>: a record that
  exists under \<open>k\<close> names \<open>k\<close> as its certificate number, and its fingerprint and
  timestamp are those of the one registration of \<open>k\<close> in the event log. A successful
  \<open>registerDocument\<close>, the only call that writes, takes a state with this property to
  a state with this property.
\<close>

theorem record_inv_reachable:
  "record_inv (run txs) k
   \<and> (record_inv s k \<and> registerDocument t cn dh s = Inr s' \<longrightarrow> record_inv s' k)"
  using foldl_exec_record_inv [OF record_inv_deployed] registerDocument_record_inv
  by (auto simp: run_def)

theorem record_inv_reachable_witness:
  "exists (documents (run [(1700000000, Register ''CERT-12345678-0042'' ''ab12''),
                            (1700000500, Register ''CERT-12345678-0042'' ''cd34'')])
             ''CERT-12345678-0042'')
   \<and> certificateNumber
        (documents (run [(1700000000, Register ''CERT-12345678-0042'' ''ab12''),
                         (1700000500, Register ''CERT-12345678-0042'' ''cd34'')])
           ''CERT-12345678-0042'') = ''CERT-12345678-0042''
   \<and> filter (\<lambda>e. event_certificate e = ''CERT-12345678-0042'')
        (emitted (run [(1700000000, Register ''CERT-12345678-0042'' ''ab12''),
                       (1700000500, Register ''CERT-12345678-0042'' ''cd34'')]))
      = [DocumentRegistered ''CERT-12345678-0042'' ''ab12'' 1700000000]"
proof -
  let ?s = "run [(1700000000, Register ''CERT-12345678-0042'' ''ab12''),
                 (1700000500, Register ''CERT-12345678-0042'' ''cd34'')]"
  have d: "documents ?s ''CERT-12345678-0042'' =
      \<lparr>certificateNumber = ''CERT-12345678-0042'', documentHash = ''ab12'',
       timestamp = 1700000000, exists = True\<rparr>"
    by (simp add: run_def registerDocument_def deployed_def zero_Document_def)
  have "record_inv ?s ''CERT-12345678-0042''"
    using record_inv_reachable by blast
  then show ?thesis
    unfolding record_inv_def Let_def d by simp
qed

section \<open>Properties of the certificate identifier generator\<close>

lemma is_digit_digit_char: "d < 10 \<Longrightarrow> is_digit (digit_char d)"
  unfolding is_digit_def digit_char_def by (rule nth_mem) simp

lemma decimal_digits: "list_all is_digit (decimal n)"
proof (induction n rule: decimal.induct)
  case (1 n)
  show ?case
  proof (cases "n < 10")
    case True
    then show ?thesis by (simp add: decimal.simps [of n] is_digit_digit_char)
  next
    case False
    with "1" have "list_all is_digit (decimal (n div 10))" by simp
    with False show ?thesis by (simp add: decimal.simps [of n] is_digit_digit_char)
  qed
qed

lemma decimal_length_ge: "10 ^ k \<le> n \<Longrightarrow> k < length (decimal n)"
proof (induction k arbitrary: n)
  case 0
  then show ?case by (simp add: decimal.simps [of n])
next
  case (Suc k)
  then have "10 ^ k \<le> n div 10" by simp
  then have "k < length (decimal (n div 10))" by (rule Suc.IH)
  moreover have "\<not> n < 10"
  proof
    assume "n < 10"
    moreover from Suc.prems have "10 * 10 ^ k \<le> n" by simp
    ultimately have "10 * 10 ^ k < (10::nat)" by linarith
    then have "10 ^ k < (1::nat)" by simp
    then show False by simp
  qed
  ultimately show ?case by (simp add: decimal.simps [of n])
qed

lemma decimal_length_le: "n < 10 ^ Suc k \<Longrightarrow> length (decimal n) \<le> Suc k"
proof (induction k arbitrary: n)
  case 0
  then show ?case by (simp add: decimal.simps [of n])
next
  case (Suc k)
  show ?case
  proof (cases "n < 10")
    case True
    then show ?thesis by (simp add: decimal.simps [of n])
  next
    case False
    from Suc.prems have "n div 10 < 10 ^ Suc k"
      by (simp add: less_mult_imp_div_less mult.commute)
    then have "length (decimal (n div 10)) \<le> Suc k" by (rule Suc.IH)
    with False show ?thesis by (simp add: decimal.simps [of n])
  qed
qed

subsection \<open>Reading digits back\<close>

lemma digit_value_digit_char: "d < 10 \<Longrightarrow> digit_value (digit_char d) = d"
proof -
  assume "d < 10"
  then have "d \<in> {0, 1, 2, 3, 4, 5, 6, 7, 8, 9}" by auto
  then show ?thesis
    by (elim insertE emptyE) (simp_all add: digit_value_def digit_char_def)
qed

lemma decimal_value_snoc:
  "decimal_value (s @ [c]) = 10 * decimal_value s + digit_value c"
  by (simp add: decimal_value_def)

lemma decimal_value_zeros: "decimal_value (replicate k (CHR ''0'') @ s) = decimal_value s"
proof -
  have "foldl (\<lambda>a c. 10 * a + digit_value c) 0 (replicate k (CHR ''0'')) = 0"
    by (induction k) (simp_all add: replicate_append_same [symmetric] digit_value_def)
  then show ?thesis by (simp add: decimal_value_def)
qed

lemma decimal_value_decimal: "decimal_value (decimal n) = n"
proof (induction n rule: decimal.induct)
  case (1 n)
  show ?case
  proof (cases "n < 10")
    case True
    then show ?thesis
      by (simp add: decimal.simps [of n] decimal_value_def digit_value_digit_char)
  next
    case False
    with "1" have "decimal_value (decimal (n div 10)) = n div 10" by simp
    with False show ?thesis
      by (simp add: decimal.simps [of n] decimal_value_snoc digit_value_digit_char)
  qed
qed

lemma decimal_value_last_digits:
  "k \<le> length (decimal n) \<Longrightarrow>
   decimal_value (slice_from_end k (decimal n)) = n mod 10 ^ k"
proof (induction k arbitrary: n)
  case 0
  then show ?case by (simp add: slice_from_end_def decimal_value_def)
next
  case (Suc k)
  show ?case
  proof (cases "n < 10")
    case True
    with Suc.prems have "k = 0" by (simp add: decimal.simps [of n])
    with True show ?thesis
      by (simp add: slice_from_end_def decimal.simps [of n] decimal_value_def
          digit_value_digit_char)
  next
    case False
    then have d: "decimal n = decimal (n div 10) @ [digit_char (n mod 10)]"
      by (simp add: decimal.simps [of n])
    with Suc.prems have k: "k \<le> length (decimal (n div 10))" by simp
    then have "decimal_value (slice_from_end k (decimal (n div 10))) = (n div 10) mod 10 ^ k"
      by (rule Suc.IH)
    moreover have "slice_from_end (Suc k) (decimal n)
        = slice_from_end k (decimal (n div 10)) @ [digit_char (n mod 10)]"
      using k unfolding d slice_from_end_def by simp
    moreover have "n mod 10 ^ Suc k = 10 * ((n div 10) mod 10 ^ k) + n mod 10"
      by (simp add: mod_mult2_eq)
    ultimately show ?thesis
      by (simp add: decimal_value_snoc digit_value_digit_char)
  qed
qed

subsection \<open>The product of the draw with an integer\<close>

lemma bit_length_bounds:
  "0 < n \<Longrightarrow> 2 ^ (bit_length n - 1) \<le> n \<and> n < 2 ^ bit_length n"
proof (induction n rule: bit_length.induct)
  case (1 n)
  show ?case
  proof (cases "n div 2 = 0")
    case True
    with "1.prems" have "n = Suc 0" by (simp add: div_eq_0_iff)
    then show ?thesis
      by (simp add: bit_length.simps [of "Suc 0"] bit_length.simps [of 0])
  next
    case False
    with "1" have ih: "2 ^ (bit_length (n div 2) - 1) \<le> n div 2"
      "n div 2 < 2 ^ bit_length (n div 2)" by simp_all
    from False have pos: "0 < bit_length (n div 2)"
      by (simp add: bit_length.simps [of "n div 2"])
    from "1.prems" have b: "bit_length n = Suc (bit_length (n div 2))"
      by (simp add: bit_length.simps [of n])
    from pos have e: "2 ^ bit_length (n div 2) = 2 * (2::nat) ^ (bit_length (n div 2) - 1)"
      by (cases "bit_length (n div 2)") simp_all
    from ih(1) have "2 * 2 ^ (bit_length (n div 2) - 1) \<le> n" by linarith
    moreover from ih(2) have "n < 2 * 2 ^ bit_length (n div 2)" by linarith
    ultimately show ?thesis unfolding b using e by simp
  qed
qed

lemma round_half_even_le:
  assumes "0 < s"
  shows "round_half_even s n \<le> n + 2 ^ (s - 1)"
proof -
  from assms have two: "(2::nat) ^ s = 2 * 2 ^ (s - 1)"
    by (cases s) simp_all
  show ?thesis
  proof (cases "2 ^ (s - 1) < n mod 2 ^ s \<or> (n mod 2 ^ s = 2 ^ (s - 1) \<and> odd (n div 2 ^ s))")
    case True
    then have h: "2 ^ (s - 1) \<le> n mod 2 ^ s" by auto
    from True have "round_half_even s n = n div 2 ^ s * 2 ^ s + 2 ^ s"
      by (simp add: round_half_even_def)
    also have "\<dots> = n div 2 ^ s * 2 ^ s + 2 ^ (s - 1) + 2 ^ (s - 1)"
      using two by simp
    also have "\<dots> \<le> n div 2 ^ s * 2 ^ s + n mod 2 ^ s + 2 ^ (s - 1)"
      using h by simp
    also have "\<dots> = n + 2 ^ (s - 1)" by (simp only: div_mult_mod_eq)
    finally show ?thesis .
  next
    case False
    then have "round_half_even s n = n div 2 ^ s * 2 ^ s"
      by (simp add: round_half_even_def)
    also have "\<dots> \<le> n" by simp
    finally show ?thesis by simp
  qed
qed

lemma unit_double_gap:
  assumes "m < 2 ^ p" and "m < 2 ^ j"
  shows "m * 2 ^ p + 2 ^ j \<le> (2::nat) ^ j * 2 ^ p"
proof (cases "j \<le> p")
  case True
  then have a: "(2::nat) ^ j \<le> 2 ^ p" by (intro power_increasing) simp_all
  from assms(2) have "(m + 1) * 2 ^ p \<le> (2::nat) ^ j * 2 ^ p"
    by (intro mult_le_mono1) simp
  then have b: "m * 2 ^ p + 2 ^ p \<le> (2::nat) ^ j * 2 ^ p"
    by (simp add: algebra_simps)
  from a b show ?thesis by linarith
next
  case False
  then have "(2::nat) ^ p \<le> 2 ^ j" by (intro power_increasing) simp_all
  then have a: "m * 2 ^ p \<le> m * 2 ^ j" by (intro mult_le_mono2)
  from assms(1) have "(m + 1) * 2 ^ j \<le> (2::nat) ^ p * 2 ^ j"
    by (intro mult_le_mono1) simp
  then have b: "m * 2 ^ j + 2 ^ j \<le> (2::nat) ^ j * 2 ^ p"
    by (simp add: algebra_simps)
  from a b show ?thesis by linarith
qed

lemma rounded_product_below:
  assumes "m < 2 ^ precision" and "m < 2 ^ j" and "0 < c"
  shows "round_to_53_bits (m * c) < c * 2 ^ j"
proof -
  let ?n = "m * c"
  let ?l = "c * (2::nat) ^ j"
  let ?p = precision
  from assms(2,3) have below: "?n < ?l" by (simp add: mult.commute)
  show ?thesis
  proof (cases "bit_length ?n \<le> ?p")
    case True
    with below show ?thesis by (simp add: round_to_53_bits_def)
  next
    case False
    then have s: "0 < bit_length ?n - ?p" by simp
    from False have "bit_length ?n \<noteq> 0" by simp
    then have pos: "0 < ?n" by (cases "?n = 0") (simp_all add: bit_length.simps [of 0])
    from False have r: "round_to_53_bits ?n = round_half_even (bit_length ?n - ?p) ?n"
      by (simp add: round_to_53_bits_def)
    have e: "bit_length ?n - ?p - 1 + ?p = bit_length ?n - 1"
      using False by simp
    have low: "2 ^ (bit_length ?n - 1) \<le> ?n"
      using bit_length_bounds [OF pos] by blast
    have gap: "?n * 2 ^ ?p + ?l \<le> ?l * 2 ^ ?p"
    proof -
      have "(m * 2 ^ ?p + 2 ^ j) * c \<le> (2 ^ j * 2 ^ ?p) * c"
        using unit_double_gap [OF assms(1,2)] by (rule mult_le_mono1)
      then show ?thesis by (simp add: algebra_simps)
    qed
    have "round_to_53_bits ?n \<le> ?n + 2 ^ (bit_length ?n - ?p - 1)"
      unfolding r using s by (rule round_half_even_le)
    then have "round_to_53_bits ?n * 2 ^ ?p \<le> (?n + 2 ^ (bit_length ?n - ?p - 1)) * 2 ^ ?p"
      by (rule mult_le_mono1)
    also have "\<dots> = ?n * 2 ^ ?p + 2 ^ (bit_length ?n - ?p - 1 + ?p)"
      by (simp add: algebra_simps power_add)
    also have "\<dots> = ?n * 2 ^ ?p + 2 ^ (bit_length ?n - 1)"
      unfolding e ..
    also have "\<dots> \<le> ?n * 2 ^ ?p + ?n"
      using low by (rule add_left_mono)
    also have "\<dots> < ?n * 2 ^ ?p + ?l"
      using below by (rule add_strict_left_mono)
    also have "\<dots> \<le> ?l * 2 ^ ?p"
      by (rule gap)
    finally show ?thesis by simp
  qed
qed

lemma small_product_is_exact:
  "bit_length (significand d * c) \<le> precision \<Longrightarrow>
   times_double d c = double_value d * real c"
  by (simp add: times_double_def double_value_def round_to_53_bits_def)

lemma floor_of_product:
  "Math_floor (times_double d c) = int (round_to_53_bits (significand d * c) div 2 ^ binary_places d)"
proof -
  have "\<lfloor>real (round_to_53_bits (significand d * c)) / real ((2::nat) ^ binary_places d)\<rfloor>
      = int (round_to_53_bits (significand d * c) div 2 ^ binary_places d)"
    by (rule floor_divide_of_nat_eq)
  then show ?thesis by (simp add: Math_floor_def times_double_def)
qed

lemma floor_of_product_below:
  assumes "is_unit_double d" and "0 < c"
  shows "0 \<le> Math_floor (times_double d c)" and "Math_floor (times_double d c) < int c"
proof -
  show "0 \<le> Math_floor (times_double d c)"
    unfolding floor_of_product by simp
  from assms have "round_to_53_bits (significand d * c) < c * 2 ^ binary_places d"
    by (intro rounded_product_below) (simp_all add: is_unit_double_def)
  then have "round_to_53_bits (significand d * c) div 2 ^ binary_places d < c"
    by (simp add: less_mult_imp_div_less)
  then show "Math_floor (times_double d c) < int c"
    unfolding floor_of_product by simp
qed


subsection \<open>The shape of the identifier\<close>

lemma timestamp_part:
  assumes "10000000 \<le> now"
  shows "length (slice_from_end 8 (Number_toString now)) = 8"
    and "list_all is_digit (slice_from_end 8 (Number_toString now))"
    and "decimal_value (slice_from_end 8 (Number_toString now)) = nat now mod 10 ^ 8"
proof -
  from assms have n: "Number_toString now = decimal (nat now)"
    by (simp add: Number_toString_def)
  from assms have "10 ^ 7 \<le> nat now" by simp
  then have len: "7 < length (decimal (nat now))" by (rule decimal_length_ge)
  then show "length (slice_from_end 8 (Number_toString now)) = 8"
    unfolding n slice_from_end_def by simp
  have "set (drop (length (decimal (nat now)) - 8) (decimal (nat now))) \<subseteq> set (decimal (nat now))"
    by (rule set_drop_subset)
  with decimal_digits [of "nat now"]
  show "list_all is_digit (slice_from_end 8 (Number_toString now))"
    unfolding n slice_from_end_def by (auto simp: list_all_iff)
  from len have "8 \<le> length (decimal (nat now))" by simp
  then show "decimal_value (slice_from_end 8 (Number_toString now)) = nat now mod 10 ^ 8"
    unfolding n by (rule decimal_value_last_digits)
qed

lemma zeros_digits: "list_all is_digit (replicate m (CHR ''0''))"
  by (induction m) (simp_all add: is_digit_def)

lemma random_part:
  assumes "is_unit_double r"
  shows "length (padStart 4 (CHR ''0'') (Number_toString (Math_floor (times_double r 10000)))) = 4"
    and "list_all is_digit
           (padStart 4 (CHR ''0'') (Number_toString (Math_floor (times_double r 10000))))"
    and "int (decimal_value
           (padStart 4 (CHR ''0'') (Number_toString (Math_floor (times_double r 10000)))))
         = Math_floor (times_double r 10000)"
proof -
  let ?k = "Math_floor (times_double r 10000)"
  have lo: "0 \<le> ?k" and hi: "?k < 10000"
    using floor_of_product_below [OF assms, of 10000] by simp_all
  from lo have n: "Number_toString ?k = decimal (nat ?k)"
    by (simp add: Number_toString_def)
  from lo hi have "nat ?k < 10000" by linarith
  then have "nat ?k < 10 ^ Suc 3" by simp
  then have len: "length (decimal (nat ?k)) \<le> Suc 3" by (rule decimal_length_le)
  then show "length (padStart 4 (CHR ''0'') (Number_toString ?k)) = 4"
    unfolding n padStart_def by simp
  show "list_all is_digit (padStart 4 (CHR ''0'') (Number_toString ?k))"
    unfolding n padStart_def using decimal_digits [of "nat ?k"]
    by (simp add: zeros_digits)
  have "decimal_value (padStart 4 (CHR ''0'') (Number_toString ?k)) = nat ?k"
    unfolding n padStart_def by (simp add: decimal_value_zeros decimal_value_decimal)
  with lo show "int (decimal_value (padStart 4 (CHR ''0'') (Number_toString ?k))) = ?k"
    by simp
qed

lemma pattern_shape:
  assumes "length a = 8" and "list_all is_digit a" and "length b = 4" and "list_all is_digit b"
  shows "matches_CERT_pattern (''CERT'' @ ''-'' @ a @ ''-'' @ b)"
    and "take 8 (drop 5 (''CERT'' @ ''-'' @ a @ ''-'' @ b)) = a"
    and "drop 14 (''CERT'' @ ''-'' @ a @ ''-'' @ b) = b"
  using assms by (simp_all add: matches_CERT_pattern_def)

text \<open>
  C8. Every identifier the generator produces has the shape \<open>CERT-\d{8}-\d{4}\<close>: the
  prefix \<open>CERT\<close>, eight decimal digits and four decimal digits, joined by hyphens. The
  eight digits are those of the clock: they denote \<open>Date.now()\<close> modulo \<open>10^8\<close>. The
  four digits are those of the random draw, padded with zeros: they denote
  \<open>Math.floor(Math.random() * 10000)\<close>, the product taken in double precision. The
  clock reads at least \<open>10^7\<close> milliseconds (any time after 02:46:40 UTC on 1 January
  1970), so that it has eight digits to give, and the draw is a double in the range of
  \<open>Math.random()\<close>.
\<close>

theorem generateCertificateNumber_pattern:
  assumes "10000000 \<le> now" and "is_unit_double r"
  shows "matches_CERT_pattern (generateCertificateNumber now r)
       \<and> decimal_value (take 8 (drop 5 (generateCertificateNumber now r))) = nat now mod 10 ^ 8
       \<and> int (decimal_value (drop 14 (generateCertificateNumber now r)))
           = Math_floor (times_double r 10000)"
proof -
  let ?t = "slice_from_end 8 (Number_toString now)"
  let ?q = "padStart 4 (CHR ''0'') (Number_toString (Math_floor (times_double r 10000)))"
  have g: "generateCertificateNumber now r = ''CERT'' @ ''-'' @ ?t @ ''-'' @ ?q"
    by (simp add: generateCertificateNumber_def Let_def)
  note t = timestamp_part [OF assms(1)]
  note q = random_part [OF assms(2)]
  note shape = pattern_shape [OF t(1,2) q(1,2)]
  show ?thesis
    unfolding g shape(2,3) using shape(1) t(3) q(3) by simp
qed

lemma sample_draw_product:
  "round_to_53_bits 544935554911830000 = 544935554911830016"
  by (simp add: round_to_53_bits_def round_half_even_def precision_def bit_length.simps)

theorem generateCertificateNumber_pattern_witness:
  "is_unit_double \<lparr>significand = 54493555491183, binary_places = 52\<rparr>
   \<and> generateCertificateNumber 1730625600123
         \<lparr>significand = 54493555491183, binary_places = 52\<rparr> = ''CERT-25600123-0121''
   \<and> matches_CERT_pattern ''CERT-25600123-0121''
   \<and> decimal_value ''25600123'' = 1730625600123 mod 10 ^ 8
   \<and> int (decimal_value ''0121'')
       = Math_floor (times_double \<lparr>significand = 54493555491183, binary_places = 52\<rparr> 10000)
   \<and> Math_floor (times_double \<lparr>significand = 54493555491183, binary_places = 52\<rparr> 10000)
       = 121"
proof -
  let ?r = "\<lparr>significand = 54493555491183, binary_places = 52\<rparr>"
  have d: "is_unit_double ?r"
    by (simp add: is_unit_double_def precision_def)
  have f: "Math_floor (times_double ?r 10000) = 121"
    unfolding floor_of_product by (simp add: sample_draw_product)
  have g: "generateCertificateNumber 1730625600123 ?r = ''CERT-25600123-0121''"
    unfolding generateCertificateNumber_def Let_def f
    by (simp add: Number_toString_def slice_from_end_def padStart_def decimal.simps
        digit_char_def)
  have h: "(10000000::int) \<le> 1730625600123" by simp
  show ?thesis
    using generateCertificateNumber_pattern [OF h d] d f unfolding g by simp
qed

section \<open>Properties of the document stamper\<close>

subsection \<open>Where the original text is in the stamped text\<close>







subsection \<open>Reading the payload back from a stamped text\<close>

lemma match_at_other_start: "c \<noteq> CHR ''Q'' \<Longrightarrow> match_at (c # cs) = None"
  by (simp add: match_at_def qr_marker_def)

lemma String_match_qr_skip:
  "CHR ''Q'' \<notin> set pre \<Longrightarrow> String_match_qr (pre @ rest) = String_match_qr rest"
proof (induction pre)
  case Nil
  then show ?case by simp
next
  case (Cons c pre)
  then have "c \<noteq> CHR ''Q''" and "CHR ''Q'' \<notin> set pre" by auto
  with Cons.IH show ?case by (simp add: match_at_other_start)
qed

lemma no_terminator: "c \<notin> breaks_group \<Longrightarrow> \<not> line_terminator_at (c # cs)"
  by (auto simp: breaks_group_def line_terminator_at_def)

lemma lazy_to_brace_body:
  "set body \<inter> breaks_group = {} \<Longrightarrow> lazy_to_brace (body @ ''}'' @ rest) = Some (body @ ''}'')"
proof (induction body)
  case Nil
  then show ?case by simp
next
  case (Cons c body)
  then have c: "c \<notin> breaks_group" and b: "set body \<inter> breaks_group = {}" by auto
  from c have "c \<noteq> CHR ''}''" by (auto simp: breaks_group_def)
  with Cons.IH [OF b] no_terminator [OF c] show ?case by simp
qed

lemma match_at_marker:
  "match_at (qr_marker @ ''{'' @ s) = map_option ((#) CHR ''{'') (lazy_to_brace s)"
  by (simp add: match_at_def)

lemma String_match_qr_here:
  "match_at (qr_marker @ s) = Some g \<Longrightarrow> String_match_qr (qr_marker @ s) = Some g"
  by (simp add: qr_marker_def)

lemma hex_digit_plain: "d < 16 \<Longrightarrow> hex_digit d \<notin> breaks_group"
proof -
  assume "d < 16"
  then have "hex_digit d \<in> set ''0123456789abcdef''"
    unfolding hex_digit_def by (intro nth_mem) simp
  then show ?thesis by (auto simp: breaks_group_def)
qed

lemma json_escape_plain:
  assumes "c \<noteq> CHR ''}''" and "c \<noteq> CHR 0xE2"
  shows "set (json_escape c) \<inter> breaks_group = {}"
proof -
  consider (short) "c \<in> {CHR 0x22, CHR 0x5C, CHR 0x08, CHR 0x09, CHR 0x0A, CHR 0x0C, CHR 0x0D}"
    | (control) "c \<notin> {CHR 0x22, CHR 0x5C, CHR 0x08, CHR 0x09, CHR 0x0A, CHR 0x0C, CHR 0x0D}"
        "(of_char c :: nat) < 0x20"
    | (itself) "c \<notin> {CHR 0x22, CHR 0x5C, CHR 0x08, CHR 0x09, CHR 0x0A, CHR 0x0C, CHR 0x0D}"
        "\<not> (of_char c :: nat) < 0x20"
    by blast
  then show ?thesis
  proof cases
    case short
    then show ?thesis
      by (elim insertE emptyE) (simp_all add: json_escape_def breaks_group_def)
  next
    case control
    from control(2) have "(of_char c :: nat) div 16 < 16" and "(of_char c :: nat) mod 16 < 16"
      by simp_all
    then have "hex_digit (of_char c div 16) \<notin> breaks_group"
      and "hex_digit (of_char c mod 16) \<notin> breaks_group"
      by (simp_all add: hex_digit_plain)
    moreover have "json_escape c = [CHR 0x5C, CHR ''u'', CHR ''0'', CHR ''0'',
              hex_digit (of_char c div 16), hex_digit (of_char c mod 16)]"
      using control by (simp add: json_escape_def)
    moreover have "CHR 0x5C \<notin> breaks_group" "CHR ''u'' \<notin> breaks_group" "CHR ''0'' \<notin> breaks_group"
      by (simp_all add: breaks_group_def)
    ultimately show ?thesis by simp
  next
    case itself
    then have "json_escape c = [c]" by (simp add: json_escape_def)
    moreover from itself(1) assms have "c \<notin> breaks_group" by (simp add: breaks_group_def)
    ultimately show ?thesis by simp
  qed
qed

lemma json_quote_plain:
  assumes "CHR ''}'' \<notin> set s" and "CHR 0xE2 \<notin> set s"
  shows "set (json_quote s) \<inter> breaks_group = {}"
proof -
  have "set (json_escape c) \<inter> breaks_group = {}" if "c \<in> set s" for c
    using that assms by (intro json_escape_plain) auto
  then have "set (concat (map json_escape s)) \<inter> breaks_group = {}" by auto
  then show ?thesis
    by (auto simp: json_quote_def breaks_group_def)
qed

lemma payload_shape:
  assumes "CHR ''}'' \<notin> set certNumber" and "CHR 0xE2 \<notin> set certNumber"
    and "CHR ''}'' \<notin> set docHash" and "CHR 0xE2 \<notin> set docHash"
  shows "\<exists>body. JSON_stringify_cert_hash certNumber docHash = ''{'' @ body @ ''}''
           \<and> set body \<inter> breaks_group = {}"
proof -
  let ?body = "json_quote ''cert'' @ '':'' @ json_quote certNumber @ '','' @
     json_quote ''hash'' @ '':'' @ json_quote docHash"
  have "set (json_quote ''cert'') \<inter> breaks_group = {}"
    and "set (json_quote ''hash'') \<inter> breaks_group = {}"
    by (rule json_quote_plain; simp)+
  moreover have "set (json_quote certNumber) \<inter> breaks_group = {}"
    and "set (json_quote docHash) \<inter> breaks_group = {}"
    using assms by (simp_all add: json_quote_plain)
  moreover have "set '':'' \<inter> breaks_group = {}" and "set '','' \<inter> breaks_group = {}"
    by (simp_all add: breaks_group_def)
  ultimately have "set ?body \<inter> breaks_group = {}"
    by (simp add: Int_Un_distrib2)
  moreover have "JSON_stringify_cert_hash certNumber docHash = ''{'' @ ?body @ ''}''"
    by (simp add: JSON_stringify_cert_hash_def)
  ultimately show ?thesis by blast
qed

lemma rule_no_Q: "CHR ''Q'' \<notin> set (String_repeat box_double n)"
  by (auto simp: String_repeat_def box_double_def)

text \<open>
  When no capital Q occurs before the footer line (in the original content, the
  certificate number, the fingerprint and the date) and the certificate number and the
  fingerprint hold neither a closing brace nor the byte \<open>0xE2\<close>, the search returns
  the payload of this stamping, whatever text follows the stamped text.
\<close>

lemma text_extract:
  assumes "CHR ''Q'' \<notin> set originalContent" and "CHR ''Q'' \<notin> set certified"
    and "CHR ''Q'' \<notin> set certNumber" and "CHR ''Q'' \<notin> set docHash"
    and "CHR ''}'' \<notin> set certNumber" and "CHR 0xE2 \<notin> set certNumber"
    and "CHR ''}'' \<notin> set docHash" and "CHR 0xE2 \<notin> set docHash"
  shows "String_match_qr
           (certifiedContent_qr originalContent certified certNumber docHash @ tail_text)
         = Some (JSON_stringify_cert_hash certNumber docHash)"
proof -
  obtain body where p: "JSON_stringify_cert_hash certNumber docHash = ''{'' @ body @ ''}''"
    and b: "set body \<inter> breaks_group = {}"
    using payload_shape [OF assms(5-8)] by blast
  let ?pre = "originalContent @ newline @
      newline @
      String_repeat box_double 80 @ newline @
      ''BLOCKCHAIN VERIFIED CERTIFICATE'' @ newline @
      ''Certificate Number: '' @ certNumber @ newline @
      ''Document Hash: '' @ docHash @ newline @
      ''Certified: '' @ certified @ newline @
      newline"
  let ?post = "newline @
      newline @
      ''Upload this file to verify at: http://localhost:'' @ Number_toString PORT @ newline @
      String_repeat box_double 80 @ newline"
  have split: "certifiedContent_qr originalContent certified certNumber docHash @ tail_text
      = ?pre @ qr_marker @ ''{'' @ body @ ''}'' @ ?post @ tail_text"
    unfolding certifiedContent_qr_def Let_def p by (simp add: qr_marker_def)
  have "CHR ''Q'' \<notin> set ?pre"
    using assms(1-4) by (simp add: rule_no_Q newline_def)
  then have "String_match_qr (?pre @ qr_marker @ ''{'' @ body @ ''}'' @ ?post @ tail_text)
      = String_match_qr (qr_marker @ ''{'' @ body @ ''}'' @ ?post @ tail_text)"
    by (rule String_match_qr_skip)
  also have "\<dots> = Some (''{'' @ body @ ''}'')"
  proof (rule String_match_qr_here)
    have "lazy_to_brace (body @ ''}'' @ ?post @ tail_text) = Some (body @ ''}'')"
      using b by (rule lazy_to_brace_body)
    then show "match_at (qr_marker @ ''{'' @ body @ ''}'' @ ?post @ tail_text) = Some (''{'' @ body @ ''}'')"
      unfolding match_at_marker by simp
  qed
  finally show ?thesis
    unfolding split p .
qed

text \<open>
  For a PDF the payload travels in the title. When stamping has succeeded and loading
  returns what was saved, reading it back gives the payload of this stamping.
\<close>

lemma pdf_extract:
  assumes "addMinimalCertificateToPDF lib fs inputPath outputPath certNumber docHash = (True, fs')"
    and "\<And>d. PDFDocument_load lib (PDFDocument_save lib d) = Some d"
  shows "extractQRDataFromPDF lib fs' outputPath = Some (JSON_stringify_cert_hash certNumber docHash)"
  using assms
  by (auto simp: addMinimalCertificateToPDF_def extractQRDataFromPDF_def
      set_certificate_metadata_def Let_def
      split: option.splits list.splits prod.splits)

section \<open>Properties of the server\<close>

lemmas extname_eval = path_extname_def extname_step_def extname_result_def Let_def
  toLowerCase_def lower_char_def

subsection \<open>The upload filter\<close>

lemma allowed_extensions_pass:
  "ext \<in> {''.pdf'', ''.png'', ''.jpg'', ''.jpeg'', ''.txt''} \<Longrightarrow> allowedTypes_test ext"
  by (auto simp: allowedTypes_test_def sublist_code)

lemma accepted_upload_is_stored:
  assumes "fileFilter (client_filename file) = Inr True"
    and "length (file_bytes file) \<le> fileSize_limit"
  shows "\<exists>stored. upload_single env fs (Some file)
           = Inr (Some \<lparr>originalname = client_filename file, path = stored,
                         file_size = length (file_bytes file)\<rparr>,
                  fs(stored \<mapsto> file_bytes file))"
  using assms by (simp add: upload_single_def Let_def)

lemma refused_upload_is_error_page:
  assumes "fileFilter (client_filename file) = Inl msg"
  shows "post_api_upload lib env w (Some file) = (ErrorPage 500, w)"
  using assms by (simp add: post_api_upload_def upload_single_def default_error_status_def)

lemma oversized_upload_is_error_page:
  assumes "fileFilter (client_filename file) = Inr True"
    and "fileSize_limit < length (file_bytes file)"
  shows "post_api_upload lib env w (Some file) = (ErrorPage 500, w)"
  using assms by (simp add: post_api_upload_def upload_single_def default_error_status_def)

text \<open>
  C7 at a file whose extension is none of the five: \<open>report.pdfx\<close> has the
  extension \<open>.pdfx\<close>, in which the unanchored pattern finds \<open>pdf\<close>, so the filter
  accepts it. And a file that the filter does refuse, \<open>tool.exe\<close>, is answered by the
  default error handler, with status 500.
\<close>

theorem fileFilter_accepts_pdfx:
  "path_extname ''report.pdfx'' = ''.pdfx''
   \<and> fileFilter ''report.pdfx'' = Inr True
   \<and> fileFilter ''tool.exe'' = Inl ''Only PDF, PNG, JPG, JPEG, and TXT files allowed''
   \<and> post_api_upload sample_library sample_env empty_world
         (Some \<lparr>client_filename = ''tool.exe'', file_bytes = ''MZ''\<rparr>)
       = (ErrorPage 500, empty_world)"
proof -
  have a: "path_extname ''report.pdfx'' = ''.pdfx''"
    by (simp add: extname_eval)
  have b: "fileFilter ''report.pdfx'' = Inr True"
    by (simp add: fileFilter_def extname_eval allowedTypes_test_def sublist_code)
  have c: "fileFilter ''tool.exe'' = Inl ''Only PDF, PNG, JPG, JPEG, and TXT files allowed''"
    by (simp add: fileFilter_def extname_eval allowedTypes_test_def sublist_code)
  have "post_api_upload sample_library sample_env empty_world
      (Some \<lparr>client_filename = ''tool.exe'', file_bytes = ''MZ''\<rparr>)
      = (ErrorPage 500, empty_world)"
    by (rule refused_upload_is_error_page) (simp add: c)
  with a b c show ?thesis by simp
qed

subsection \<open>The temporary file of an upload\<close>

lemma registration_adds_call_only:
  "BlockchainService_registerDocument lib env w cn dh = (r, w1) \<Longrightarrow> files w1 = files w"
  by (auto simp: BlockchainService_registerDocument_def Let_def
      split: option.splits sum.splits tx_error.splits)

lemma upload_failed_registration_removes_file:
  assumes "files w (path file) = Some bytes"
    and "BlockchainService_registerDocument lib env w
           (generateCertificateNumber (Date_now env) (Math_random env)) (sha256_hex lib bytes)
         = (Failure err, w1)"
  shows "status_of (fst (api_upload lib env w (Some file))) = 500
       \<and> files (snd (api_upload lib env w (Some file))) (path file) = None"
  using assms registration_adds_call_only [OF assms(2)]
  by (simp add: api_upload_def Let_def unlink_if_exists_def)

lemma upload_failed_processing_keeps_file:
  assumes "files w (path file) = Some bytes"
    and "BlockchainService_registerDocument lib env w
           (generateCertificateNumber (Date_now env) (Math_random env)) (sha256_hex lib bytes)
         = (Success tx, w1)"
    and "processCertifiedDocument lib env (files w1) (path file)
           (generateCertificateNumber (Date_now env) (Math_random env)) (sha256_hex lib bytes)
           (originalname file) = (None, fs2)"
  shows "api_upload lib env w (Some file)
         = (Json 500 [(''error'', JStr ''Document processing failed'')], w1\<lparr>files := fs2\<rparr>)"
  using assms by (simp add: api_upload_def Let_def)

lemma broken_pdf_ext: "toLowerCase (path_extname ''broken.pdf'') = ''.pdf''"
  by (simp add: extname_eval)

lemma no_pdf_loads:
  "addMinimalCertificateToPDF sample_library fs inputPath outputPath certNumber docHash
   = (False, fs)"
  by (simp add: addMinimalCertificateToPDF_def sample_library_def split: option.splits)

lemma broken_pdf_processing:
  "processCertifiedDocument sample_library env fs inputPath certNumber docHash ''broken.pdf''
   = (None, fs)"
  unfolding processCertifiedDocument_def Let_def broken_pdf_ext no_pdf_loads
  by simp

lemma sample_registration:
  "BlockchainService_registerDocument sample_library sample_env
     \<lparr>files = fs, ledger = deployed, registry_calls = []\<rparr> cn dh
   = (Success ''0xabc'',
      \<lparr>files = fs,
       ledger = deployed\<lparr>documents := (documents deployed)
                   (cn := \<lparr>certificateNumber = cn, documentHash = dh,
                           timestamp = 1730625601, exists = True\<rparr>),
                 emitted := [DocumentRegistered cn dh 1730625601]\<rparr>,
       registry_calls = [Register cn dh]\<rparr>)"
  by (simp add: BlockchainService_registerDocument_def sample_env_def sample_library_def
      registerDocument_def deployed_def zero_Document_def)

lemma sample_upload_stored:
  "upload_single sample_env Map.empty
     (Some \<lparr>client_filename = ''broken.pdf'', file_bytes = ''not a pdf''\<rparr>)
   = Inr (Some \<lparr>originalname = ''broken.pdf'',
                 path = ''uploads/1730625600100-250000000.pdf'',
                 file_size = length ''not a pdf''\<rparr>,
          [''uploads/1730625600100-250000000.pdf'' \<mapsto> ''not a pdf''])"
proof -
  have f: "fileFilter ''broken.pdf'' = Inr True"
    by (simp add: fileFilter_def extname_eval allowedTypes_test_def sublist_code)
  have e: "path_extname ''broken.pdf'' = ''.pdf''"
    by (simp add: extname_eval)
  have n: "Number_toString (storage_Date_now sample_env) = ''1730625600100''"
    by (simp add: sample_env_def Number_toString_def decimal.simps digit_char_def)
  have p: "times_double (storage_Math_random sample_env) 1000000000 = 250000000"
    by (simp add: sample_env_def times_double_def round_to_53_bits_def precision_def
        bit_length.simps)
  have r: "Number_toString (Math_round (times_double (storage_Math_random sample_env) 1000000000))
      = ''250000000''"
    unfolding p
    by (simp add: Math_round_def Number_toString_def decimal.simps digit_char_def)
  have l: "\<not> fileSize_limit < length ''not a pdf''"
    by (simp add: fileSize_limit_def)
  show ?thesis
    using l by (simp add: upload_single_def f e n r path_join_def uploadsDir_def Let_def)
qed

text \<open>
  C5 at an upload whose processing fails: \<open>broken.pdf\<close> holds bytes that do not load as
  a PDF. The registration succeeds, \<open>processCertifiedDocument\<close> returns \<open>null\<close>, the
  handler answers 500 "Document processing failed", and the uploaded temporary file is
  still on disk afterwards: this exit has no \<open>unlinkSync\<close>, unlike the exit for a failed
  registration and the \<open>catch\<close> (lemma \<open>upload_failed_registration_removes_file\<close>).
\<close>

theorem upload_of_broken_pdf_leaves_temp_file:
  "fst (post_api_upload sample_library sample_env empty_world
          (Some \<lparr>client_filename = ''broken.pdf'', file_bytes = ''not a pdf''\<rparr>))
     = Json 500 [(''error'', JStr ''Document processing failed'')]
   \<and> files (snd (post_api_upload sample_library sample_env empty_world
          (Some \<lparr>client_filename = ''broken.pdf'', file_bytes = ''not a pdf''\<rparr>)))
       ''uploads/1730625600100-250000000.pdf'' = Some ''not a pdf''"
proof -
  let ?fs = "[''uploads/1730625600100-250000000.pdf'' \<mapsto> ''not a pdf'']"
  let ?w = "\<lparr>files = ?fs, ledger = deployed, registry_calls = []\<rparr>"
  let ?file = "\<lparr>originalname = ''broken.pdf'',
                 path = ''uploads/1730625600100-250000000.pdf'',
                 file_size = length ''not a pdf''\<rparr>"
  let ?cert = "generateCertificateNumber (Date_now sample_env) (Math_random sample_env)"
  let ?hash = "sha256_hex sample_library ''not a pdf''"
  have route: "post_api_upload sample_library sample_env empty_world
          (Some \<lparr>client_filename = ''broken.pdf'', file_bytes = ''not a pdf''\<rparr>)
      = api_upload sample_library sample_env ?w (Some ?file)"
    by (simp add: post_api_upload_def empty_world_def sample_upload_stored)
  have a: "files ?w (path ?file) = Some ''not a pdf''" by simp
  note b = sample_registration [of ?fs ?cert ?hash]
  have c: "processCertifiedDocument sample_library sample_env ?fs (path ?file) ?cert ?hash
      (originalname ?file) = (None, ?fs)"
    by (simp add: broken_pdf_processing)
  have "fst (api_upload sample_library sample_env ?w (Some ?file))
        = Json 500 [(''error'', JStr ''Document processing failed'')]
      \<and> files (snd (api_upload sample_library sample_env ?w (Some ?file))) = ?fs"
    using upload_failed_processing_keeps_file [of ?w ?file "''not a pdf''" sample_library
        sample_env _ _ ?fs, OF a] b c
    by simp
  then show ?thesis unfolding route by simp
qed

subsection \<open>Verification of an upload without embedded payload\<close>

text \<open>
  C10. In the verify-upload handler of the QR variant, a file whose lower-cased
  extension is neither \<open>.pdf\<close> nor \<open>.txt\<close> (a \<open>.png\<close> or \<open>.jpg\<close>, say) is not
  searched at all: whatever it holds and whatever the packages do, the handler deletes
  the uploaded file and answers 400 "No certificate found in document", and it sends no
  call to the registry. The uploaded file is on disk, where the middleware has put it.
\<close>

theorem verify_upload_other_extension:
  assumes "files w (path file) = Some content"
    and "toLowerCase (path_extname (originalname file)) \<noteq> ''.pdf''"
    and "toLowerCase (path_extname (originalname file)) \<noteq> ''.txt''"
  shows "status_of (fst (api_verify_upload_qr lib env w (Some file))) = 400
       \<and> member_of (fst (api_verify_upload_qr lib env w (Some file))) ''error''
           = Some (JStr ''No certificate found in document'')
       \<and> files (snd (api_verify_upload_qr lib env w (Some file))) (path file) = None
       \<and> registry_calls (snd (api_verify_upload_qr lib env w (Some file))) = registry_calls w
       \<and> ledger (snd (api_verify_upload_qr lib env w (Some file))) = ledger w"
  using assms
  by (simp add: api_verify_upload_qr_def Let_def no_certificate_response_def)

theorem verify_upload_other_extension_witness:
  "status_of (fst (api_verify_upload_qr sample_library sample_env
       (sample_world\<lparr>files := [''uploads/1730625600123-500000000.png'' \<mapsto> ''stamped image'']\<rparr>)
       (Some \<lparr>originalname = ''stamped.png'',
              path = ''uploads/1730625600123-500000000.png'', file_size = 13\<rparr>))) = 400
   \<and> member_of (fst (api_verify_upload_qr sample_library sample_env
       (sample_world\<lparr>files := [''uploads/1730625600123-500000000.png'' \<mapsto> ''stamped image'']\<rparr>)
       (Some \<lparr>originalname = ''stamped.png'',
              path = ''uploads/1730625600123-500000000.png'', file_size = 13\<rparr>))) ''error''
     = Some (JStr ''No certificate found in document'')
   \<and> files (snd (api_verify_upload_qr sample_library sample_env
       (sample_world\<lparr>files := [''uploads/1730625600123-500000000.png'' \<mapsto> ''stamped image'']\<rparr>)
       (Some \<lparr>originalname = ''stamped.png'',
              path = ''uploads/1730625600123-500000000.png'', file_size = 13\<rparr>)))
       ''uploads/1730625600123-500000000.png'' = None
   \<and> registry_calls (snd (api_verify_upload_qr sample_library sample_env
       (sample_world\<lparr>files := [''uploads/1730625600123-500000000.png'' \<mapsto> ''stamped image'']\<rparr>)
       (Some \<lparr>originalname = ''stamped.png'',
              path = ''uploads/1730625600123-500000000.png'', file_size = 13\<rparr>))) = []"
proof -
  let ?w = "sample_world\<lparr>files := [''uploads/1730625600123-500000000.png'' \<mapsto> ''stamped image'']\<rparr>"
  let ?file = "\<lparr>originalname = ''stamped.png'',
              path = ''uploads/1730625600123-500000000.png'', file_size = 13\<rparr>"
  have a: "files ?w (path ?file) = Some ''stamped image''" by simp
  have e: "toLowerCase (path_extname (originalname ?file)) = ''.png''"
    by (simp add: extname_eval)
  have b: "toLowerCase (path_extname (originalname ?file)) \<noteq> ''.pdf''"
    unfolding e by simp
  have c: "toLowerCase (path_extname (originalname ?file)) \<noteq> ''.txt''"
    unfolding e by simp
  have r: "registry_calls ?w = []" by (simp add: sample_world_def)
  show ?thesis
    using verify_upload_other_extension [OF a b c, of sample_library sample_env] r
    by simp
qed

subsection \<open>The message of the verdict\<close>

lemma service_verify_strings:
  assumes "rpc_error env = None"
  shows "BlockchainService_verifyDocument lib env w (JStr cn) (JStr dh)
    = (Success (fst (verifyDocument (chain_keccak256 lib) (ledger w) cn dh),
                unat (snd (verifyDocument (chain_keccak256 lib) (ledger w) cn dh))),
       w\<lparr>registry_calls := registry_calls w @ [Verify cn dh]\<rparr>)"
  using assms
  by (simp add: BlockchainService_verifyDocument_def Let_def split: prod.splits)

lemma service_get_string:
  assumes "rpc_error env = None"
  shows "BlockchainService_getDocument lib env w (JStr cn)
    = (Success (certificateNumber (documents (ledger w) cn), documentHash (documents (ledger w) cn),
                unat (timestamp (documents (ledger w) cn)), exists (documents (ledger w) cn)),
       w\<lparr>registry_calls := registry_calls w @ [GetDocument cn]\<rparr>)"
  using assms
  by (simp add: BlockchainService_getDocument_def getDocument_def Let_def)

lemma verifyDocument_fst:
  "fst (verifyDocument k s cn dh)
   = (exists (documents s cn) \<and> k (documentHash (documents s cn)) = k dh)"
  by (simp add: verifyDocument_def Let_def)

lemma api_verify_message:
  assumes "rpc_error env = None" and "cn \<noteq> []" and "dh \<noteq> []"
  shows "member_of (fst (api_verify lib env w (Some (JStr cn)) (Some (JStr dh)))) ''message''
     = Some (JStr (if exists (documents (ledger w) cn)
                      \<and> chain_keccak256 lib (documentHash (documents (ledger w) cn))
                          = chain_keccak256 lib dh
                   then valid_message_wm else invalid_message_wm))"
  using assms(2,3)
  by (simp add: api_verify_def truthy_value_def service_verify_strings [OF assms(1)]
      service_get_string [OF assms(1)] verifyDocument_fst optional_member_def
      registered_hash_def)

lemma api_verify_qr_message:
  assumes "rpc_error env = None" and "cn \<noteq> []" and "dh \<noteq> []"
    and "JSON_parse lib (JStr qr) = Some (JObj [(''cert'', JStr cn), (''hash'', JStr dh)])"
    and "qr \<noteq> []"
  shows "member_of (fst (api_verify_qr lib env w (Some (JStr qr)))) ''message''
     = Some (JStr (if exists (documents (ledger w) cn)
                      \<and> chain_keccak256 lib (documentHash (documents (ledger w) cn))
                          = chain_keccak256 lib dh
                   then valid_message_qr else invalid_message_qr))"
  using assms(2-5)
  by (simp add: api_verify_qr_def truthy_value_def service_verify_strings [OF assms(1)]
      service_get_string [OF assms(1)] verifyDocument_fst optional_member_def
      registered_hash_def)

lemma api_verify_upload_message:
  assumes "rpc_error env = None" and "cn \<noteq> []" and "dh \<noteq> []"
    and "JSON_parse lib (JStr qr) = Some (JObj [(''cert'', JStr cn), (''hash'', JStr dh)])"
    and "qr \<noteq> []"
    and "files w (path file) = Some content"
    and "toLowerCase (path_extname (originalname file)) = ''.txt''"
    and "String_match_qr content = Some qr"
  shows "member_of (fst (api_verify_upload_qr lib env w (Some file))) ''message''
     = Some (JStr (if exists (documents (ledger w) cn)
                      \<and> chain_keccak256 lib (documentHash (documents (ledger w) cn))
                          = chain_keccak256 lib dh
                      \<and> dh = documentHash (documents (ledger w) cn)
                   then valid_message_upload else invalid_message_upload))"
  using assms(2-8)
  by (simp add: api_verify_upload_qr_def truthy_value_def service_verify_strings [OF assms(1)]
      service_get_string [OF assms(1)] verifyDocument_fst optional_member_def
      registered_hash_def Let_def)

lemma api_verify_upload_certificate:
  assumes "rpc_error env = None" and "cn \<noteq> []" and "dh \<noteq> []"
    and "JSON_parse lib (JStr qr) = Some (JObj [(''cert'', JStr cn), (''hash'', JStr dh)])"
    and "qr \<noteq> []"
    and "files w (path file) = Some content"
    and "toLowerCase (path_extname (originalname file)) = ''.txt''"
    and "String_match_qr content = Some qr"
  shows "member_of (fst (api_verify_upload_qr lib env w (Some file))) ''certificateNumber''
     = Some (JStr cn)"
  using assms(2-8)
  by (simp add: api_verify_upload_qr_def truthy_value_def service_verify_strings [OF assms(1)]
      service_get_string [OF assms(1)] optional_member_def registered_hash_def Let_def)

text \<open>
  C6, as the code has it. In each of the three verification handlers the message of
  the verdict takes one of two values: the "valid" text when the record exists and the
  fingerprints agree, and one and the same "invalid" text otherwise, be it a fingerprint
  that differs or a certificate that is not registered. The handlers do call
  \<open>getDocument\<close> after \<open>verifyDocument\<close>, but its result only fills \<open>registeredHash\<close>
  (and, for an upload, enters \<open>isValid\<close>); the message does not tell the two failures
  apart. Stated for a reachable node, a certificate number and a fingerprint that are
  non-empty strings, a payload that parses to them, and an uploaded text that holds it.
\<close>

theorem verdict_message_two_valued:
  assumes "rpc_error env = None" and "cn \<noteq> []" and "dh \<noteq> []"
    and "JSON_parse lib (JStr qr) = Some (JObj [(''cert'', JStr cn), (''hash'', JStr dh)])"
    and "qr \<noteq> []"
    and "files w (path file) = Some content"
    and "toLowerCase (path_extname (originalname file)) = ''.txt''"
    and "String_match_qr content = Some qr"
  shows "member_of (fst (api_verify lib env w (Some (JStr cn)) (Some (JStr dh)))) ''message''
           = Some (JStr (if exists (documents (ledger w) cn)
                            \<and> chain_keccak256 lib (documentHash (documents (ledger w) cn))
                                = chain_keccak256 lib dh
                         then valid_message_wm else invalid_message_wm))
       \<and> member_of (fst (api_verify_qr lib env w (Some (JStr qr)))) ''message''
           = Some (JStr (if exists (documents (ledger w) cn)
                            \<and> chain_keccak256 lib (documentHash (documents (ledger w) cn))
                                = chain_keccak256 lib dh
                         then valid_message_qr else invalid_message_qr))
       \<and> member_of (fst (api_verify_upload_qr lib env w (Some file))) ''message''
           = Some (JStr (if exists (documents (ledger w) cn)
                            \<and> chain_keccak256 lib (documentHash (documents (ledger w) cn))
                                = chain_keccak256 lib dh
                            \<and> dh = documentHash (documents (ledger w) cn)
                         then valid_message_upload else invalid_message_upload))"
  using api_verify_message [OF assms(1-3)] api_verify_qr_message [OF assms(1-5)]
    api_verify_upload_message [OF assms]
  by simp

theorem verdict_message_two_valued_witness:
  "member_of (fst (api_verify sample_library sample_env
       (sample_world\<lparr>files := [''uploads/1-2.txt'' \<mapsto>
          certifiedContent_qr ''hello'' ''11/3/2026, 9:20:00 AM'' ''CERT-12345678-0042'' ''ab12'']\<rparr>)
       (Some (JStr ''CERT-12345678-0042'')) (Some (JStr ''ab12'')))) ''message''
     = Some (JStr valid_message_wm)
   \<and> member_of (fst (api_verify_qr sample_library sample_env
       (sample_world\<lparr>files := [''uploads/1-2.txt'' \<mapsto>
          certifiedContent_qr ''hello'' ''11/3/2026, 9:20:00 AM'' ''CERT-12345678-0042'' ''ab12'']\<rparr>)
       (Some (JStr (JSON_stringify_cert_hash ''CERT-12345678-0042'' ''ab12''))))) ''message''
     = Some (JStr valid_message_qr)
   \<and> member_of (fst (api_verify_upload_qr sample_library sample_env
       (sample_world\<lparr>files := [''uploads/1-2.txt'' \<mapsto>
          certifiedContent_qr ''hello'' ''11/3/2026, 9:20:00 AM'' ''CERT-12345678-0042'' ''ab12'']\<rparr>)
       (Some \<lparr>originalname = ''hello_CERTIFIED_CERT-12345678-0042.txt'',
              path = ''uploads/1-2.txt'', file_size = 700\<rparr>))) ''message''
     = Some (JStr valid_message_upload)"
proof -
  let ?content = "certifiedContent_qr ''hello'' ''11/3/2026, 9:20:00 AM'' ''CERT-12345678-0042'' ''ab12''"
  let ?w = "sample_world\<lparr>files := [''uploads/1-2.txt'' \<mapsto> ?content]\<rparr>"
  let ?file = "\<lparr>originalname = ''hello_CERTIFIED_CERT-12345678-0042.txt'',
              path = ''uploads/1-2.txt'', file_size = 700\<rparr>"
  let ?qr = "JSON_stringify_cert_hash ''CERT-12345678-0042'' ''ab12''"
  have rpc: "rpc_error sample_env = None" by (simp add: sample_env_def)
  have cn: "''CERT-12345678-0042'' \<noteq> []" and dh: "''ab12'' \<noteq> []" by simp_all
  have parse: "JSON_parse sample_library (JStr ?qr)
      = Some (JObj [(''cert'', JStr ''CERT-12345678-0042''), (''hash'', JStr ''ab12'')])"
    by (simp add: sample_library_def)
  have qr: "?qr \<noteq> []" by (simp add: JSON_stringify_cert_hash_def)
  have onfile: "files ?w (path ?file) = Some ?content" by simp
  have ext: "toLowerCase (path_extname (originalname ?file)) = ''.txt''"
    by (simp add: extname_eval)
  have "String_match_qr (?content @ []) = Some ?qr"
    by (rule text_extract; simp)
  then have found: "String_match_qr ?content = Some ?qr" by simp
  have l: "ledger ?w = ledger sample_world" by simp
  note k = sample_keccak
  show ?thesis
    using verdict_message_two_valued [OF rpc cn dh parse qr onfile ext found]
    unfolding l sample_record k by simp
qed

text \<open>
  The claim as stated fails: at a ledger that holds \<open>CERT-12345678-0042\<close> with the
  fingerprint \<open>ab12\<close> and does not hold \<open>CERT-00000000-0000\<close>, a request with the
  wrong fingerprint for the first and a request for the second get the same message.
\<close>

theorem mismatch_and_not_found_same_message:
  "exists (documents (ledger sample_world) ''CERT-12345678-0042'')
   \<and> documentHash (documents (ledger sample_world) ''CERT-12345678-0042'') \<noteq> ''ff''
   \<and> \<not> exists (documents (ledger sample_world) ''CERT-00000000-0000'')
   \<and> member_of (fst (api_verify sample_library sample_env sample_world
         (Some (JStr ''CERT-12345678-0042'')) (Some (JStr ''ff'')))) ''message''
     = member_of (fst (api_verify sample_library sample_env sample_world
         (Some (JStr ''CERT-00000000-0000'')) (Some (JStr ''ff'')))) ''message''"
proof -
  have rpc: "rpc_error sample_env = None" by (simp add: sample_env_def)
  note k = sample_keccak
  have a: "member_of (fst (api_verify sample_library sample_env sample_world
         (Some (JStr ''CERT-12345678-0042'')) (Some (JStr ''ff'')))) ''message''
      = Some (JStr invalid_message_wm)"
    using api_verify_message [OF rpc, of "''CERT-12345678-0042''" "''ff''" sample_library sample_world]
    unfolding sample_record k by simp
  have b: "member_of (fst (api_verify sample_library sample_env sample_world
         (Some (JStr ''CERT-00000000-0000'')) (Some (JStr ''ff'')))) ''message''
      = Some (JStr invalid_message_wm)"
    using api_verify_message [OF rpc, of "''CERT-00000000-0000''" "''ff''" sample_library sample_world]
    unfolding sample_no_record k by (simp add: zero_Document_def)
  show ?thesis
    unfolding a b sample_record sample_no_record by (simp add: zero_Document_def)
qed

subsection \<open>A certified text that is certified again\<close>

lemma stamped_again_extends:
  "\<exists>tail_text. certifiedContent_qr (certifiedContent_qr original t1 c1 h1) t2 c2 h2
      = certifiedContent_qr original t1 c1 h1 @ tail_text"
  unfolding certifiedContent_qr_def [of "certifiedContent_qr _ _ _ _"] Let_def by blast

text \<open>
  C3 at a text file that is itself a stamped text file: the certified text of
  \<open>CERT-12345678-0042\<close> with fingerprint \<open>ab12\<close> is uploaded and certified again, as
  \<open>CERT-22222222-0002\<close> with fingerprint \<open>bb\<close>. The search finds the line of the first
  certificate, which comes first in the file, so the payload read back from the new
  artifact is the old pair and not the pair that was registered for it, and the
  verify-upload handler returns its verdict for the old certificate number.
\<close>

theorem restamped_text_extracts_first_footer:
  "String_match_qr
     (certifiedContent_qr
        (certifiedContent_qr ''hello'' ''11/3/2026, 9:20:00 AM'' ''CERT-12345678-0042'' ''ab12'')
        ''11/3/2026, 9:21:00 AM'' ''CERT-22222222-0002'' ''bb'')
     = Some (JSON_stringify_cert_hash ''CERT-12345678-0042'' ''ab12'')
   \<and> JSON_stringify_cert_hash ''CERT-12345678-0042'' ''ab12''
       \<noteq> JSON_stringify_cert_hash ''CERT-22222222-0002'' ''bb''
   \<and> member_of
       (fst (api_verify_upload_qr sample_library sample_env
          (sample_world\<lparr>files := [''uploads/1-2.txt'' \<mapsto>
             certifiedContent_qr
               (certifiedContent_qr ''hello'' ''11/3/2026, 9:20:00 AM''
                  ''CERT-12345678-0042'' ''ab12'')
               ''11/3/2026, 9:21:00 AM'' ''CERT-22222222-0002'' ''bb'']\<rparr>)
          (Some \<lparr>originalname = ''hello_CERTIFIED_CERT-22222222-0002.txt'',
                 path = ''uploads/1-2.txt'', file_size = 1400\<rparr>)))
       ''certificateNumber''
     = Some (JStr ''CERT-12345678-0042'')"
proof -
  let ?first = "certifiedContent_qr ''hello'' ''11/3/2026, 9:20:00 AM''
                  ''CERT-12345678-0042'' ''ab12''"
  let ?second = "certifiedContent_qr ?first ''11/3/2026, 9:21:00 AM'' ''CERT-22222222-0002'' ''bb''"
  let ?qr = "JSON_stringify_cert_hash ''CERT-12345678-0042'' ''ab12''"
  let ?w = "sample_world\<lparr>files := [''uploads/1-2.txt'' \<mapsto> ?second]\<rparr>"
  let ?file = "\<lparr>originalname = ''hello_CERTIFIED_CERT-22222222-0002.txt'',
                 path = ''uploads/1-2.txt'', file_size = 1400\<rparr>"
  obtain tail_text where m: "?second = ?first @ tail_text"
    using stamped_again_extends by blast
  have "String_match_qr (?first @ tail_text) = Some ?qr"
    by (rule text_extract; simp)
  then have found: "String_match_qr ?second = Some ?qr"
    unfolding m .
  have differ: "?qr \<noteq> JSON_stringify_cert_hash ''CERT-22222222-0002'' ''bb''"
    by (simp add: JSON_stringify_cert_hash_def json_quote_def json_escape_def)
  have cn: "''CERT-12345678-0042'' \<noteq> []" and dh: "''ab12'' \<noteq> []" by simp_all
  have parse: "JSON_parse sample_library (JStr ?qr)
      = Some (JObj [(''cert'', JStr ''CERT-12345678-0042''), (''hash'', JStr ''ab12'')])"
    by (simp add: sample_library_def)
  have qr: "?qr \<noteq> []" by (simp add: JSON_stringify_cert_hash_def)
  have onfile: "files ?w (path ?file) = Some ?second" by simp
  have ext: "toLowerCase (path_extname (originalname ?file)) = ''.txt''"
    by (simp add: extname_eval)
  have "member_of (fst (api_verify_upload_qr sample_library sample_env ?w (Some ?file)))
      ''certificateNumber'' = Some (JStr ''CERT-12345678-0042'')"
    using sample_rpc cn dh parse qr onfile ext found
    by (rule api_verify_upload_certificate)
  with found differ show ?thesis by simp
qed

end
